theory Spec2Isabelle
  imports Main
begin

text \<open>
  A model of the validation side of \<^verbatim>\<open>binwen/serializers\<close>: the fields of \<^verbatim>\<open>fields.py\<close>,
  the serializers of \<^verbatim>\<open>serializers.py\<close> and the validators the field constructors attach
  (\<^verbatim>\<open>validators.py\<close>), with the exceptions of \<^verbatim>\<open>exceptions.py\<close>.  Every method is a function
  that returns the value the method returns or the exception it raises.
\<close>

section \<open>Python values\<close>

text \<open>
  The values the serializers of \<^verbatim>\<open>binwen/serializers\<close> receive and build: \<^verbatim>\<open>None\<close>,
  booleans, unbounded integers, strings, lists, dicts (in insertion order), the
  module-level sentinel \<^verbatim>\<open>empty = object()\<close> of \<^verbatim>\<open>fields.py\<close>, which marks a value that is
  absent from the input, and other objects.  \<open>Object t r\<close> is an object that is none of the
  former: \<open>t\<close> is the name of its type and \<open>r\<close> its \<^verbatim>\<open>repr\<close> (without the address CPython
  prints); it is hashable and true, it is equal to itself only, and it is not a number,
  has no length and is not iterable.  A copy of the sentinel, a bound method and a type
  are such objects.  Objects are told apart by \<open>t\<close> and \<open>r\<close> only, and the
  code never compares two of them.  Floats, tuples, sets, bytes and datetimes are not
  part of this universe.  A character is a code point below 256.
\<close>

datatype pyval =
    Empty
  | PNone
  | PBool bool
  | PInt int
  | PStr string
  | PList "pyval list"
  | PDict "(pyval \<times> pyval) list"
  | Object string string

subsection \<open>Strings: \<^verbatim>\<open>str()\<close>, \<^verbatim>\<open>repr()\<close>, \<^verbatim>\<open>strip()\<close>, \<^verbatim>\<open>int()\<close>\<close>

definition digit_char :: "nat \<Rightarrow> char" where
  "digit_char d = char_of (48 + d)"

fun str_of_nat :: "nat \<Rightarrow> string" where
  "str_of_nat n = (if n < 10 then [digit_char n] else str_of_nat (n div 10) @ [digit_char (n mod 10)])"

declare str_of_nat.simps [simp del]

definition str_of_int :: "int \<Rightarrow> string" where
  "str_of_int i = (if i < 0 then CHR ''-'' # str_of_nat (nat (- i)) else str_of_nat (nat i))"

text \<open>\<^verbatim>\<open>str.isspace\<close> on code points below 256; \<^verbatim>\<open>str.strip()\<close> and the pattern class
  \<^verbatim>\<open>\s\<close> of a \<^verbatim>\<open>str\<close> pattern use it.\<close>

definition is_space :: "char \<Rightarrow> bool" where
  "is_space c = (let n = (of_char c :: nat) in
     (9 \<le> n \<and> n \<le> 13) \<or> (28 \<le> n \<and> n \<le> 32) \<or> n = 133 \<or> n = 160)"

definition lstrip :: "string \<Rightarrow> string" where
  "lstrip s = dropWhile is_space s"

definition rstrip :: "string \<Rightarrow> string" where
  "rstrip s = rev (dropWhile is_space (rev s))"

definition strip :: "string \<Rightarrow> string" where
  "strip s = rstrip (lstrip s)"

definition is_digit :: "char \<Rightarrow> bool" where
  "is_digit c = (let n = (of_char c :: nat) in 48 \<le> n \<and> n \<le> 57)"

definition digit_val :: "char \<Rightarrow> nat" where
  "digit_val c = of_char c - 48"

text \<open>The digits of an integer literal as \<^verbatim>\<open>int(str)\<close> reads them in base 10: a digit
  first, then digits, each of which may be preceded by one underscore.  The accumulator
  is the value read so far.\<close>

fun int_digits :: "nat \<Rightarrow> string \<Rightarrow> nat option" where
  "int_digits acc [] = Some acc"
| "int_digits acc (c # cs) =
     (if is_digit c then int_digits (10 * acc + digit_val c) cs
      else if c = CHR ''_'' then
        (case cs of
           [] \<Rightarrow> None
         | d # ds \<Rightarrow> if is_digit d then int_digits (10 * acc + digit_val d) ds else None)
      else None)"

definition int_literal :: "string \<Rightarrow> nat option" where
  "int_literal s = (case s of [] \<Rightarrow> None | c # cs \<Rightarrow> if is_digit c then int_digits (digit_val c) cs else None)"

text \<open>\<^verbatim>\<open>int(s)\<close> for a string: \<^verbatim>\<open>None\<close> stands for the \<^verbatim>\<open>ValueError\<close>.  CPython
  skips the ASCII blanks and the blanks above 127 around the literal, but not the
  separators 28 to 31 that \<^verbatim>\<open>str.isspace\<close> also accepts.  No limit on the number of
  digits is modelled.\<close>

definition int_space :: "char \<Rightarrow> bool" where
  "int_space c = (let n = (of_char c :: nat) in (9 \<le> n \<and> n \<le> 13) \<or> n = 32 \<or> n = 133 \<or> n = 160)"

definition int_of_str :: "string \<Rightarrow> int option" where
  "int_of_str s =
     (case rev (dropWhile int_space (rev (dropWhile int_space s))) of
        [] \<Rightarrow> None
      | c # cs \<Rightarrow>
          if c = CHR ''-'' then map_option (\<lambda>n. - int n) (int_literal cs)
          else if c = CHR ''+'' then map_option int (int_literal cs)
          else map_option int (int_literal (c # cs)))"

text \<open>\<^verbatim>\<open>repr\<close> of a string: the quote is chosen as CPython does, the quote and the
  backslash are escaped, control characters are written as escapes.\<close>

definition hex_char :: "nat \<Rightarrow> char" where
  "hex_char d = (if d < 10 then char_of (48 + d) else char_of (87 + d))"

definition repr_char :: "char \<Rightarrow> char \<Rightarrow> string" where
  "repr_char q c =
     (let n = (of_char c :: nat) in
      if c = q \<or> n = 92 then [CHR 0x5C, c]
      else if n = 9 then [CHR 0x5C, CHR ''t'']
      else if n = 10 then [CHR 0x5C, CHR ''n'']
      else if n = 13 then [CHR 0x5C, CHR ''r'']
      else if n < 32 \<or> (127 \<le> n \<and> n \<le> 160) \<or> n = 173
        then [CHR 0x5C, CHR ''x'', hex_char (n div 16), hex_char (n mod 16)]
      else [c])"

definition repr_str :: "string \<Rightarrow> string" where
  "repr_str s =
     (let q = (if CHR 0x27 \<in> set s \<and> CHR 0x22 \<notin> set s then CHR 0x22 else CHR 0x27)
      in q # concat (map (repr_char q) s) @ [q])"

fun join :: "string \<Rightarrow> string list \<Rightarrow> string" where
  "join sep [] = []"
| "join sep [x] = x"
| "join sep (x # y # ys) = x @ sep @ join sep (y # ys)"

text \<open>\<^verbatim>\<open>repr(v)\<close>; for the sentinel CPython prints \<^verbatim>\<open><object object at 0x...>\<close> with the
  address of the object, which is left out here.\<close>

fun repr :: "pyval \<Rightarrow> string" where
  "repr Empty = ''<object object>''"
| "repr PNone = ''None''"
| "repr (PBool b) = (if b then ''True'' else ''False'')"
| "repr (PInt i) = str_of_int i"
| "repr (PStr s) = repr_str s"
| "repr (PList xs) = ''['' @ join '', '' (map repr xs) @ '']''"
| "repr (PDict kvs) = ''{'' @ join '', '' (map (\<lambda>(k, v). repr k @ '': '' @ repr v) kvs) @ ''}''"
| "repr (Object t r) = r"

definition str :: "pyval \<Rightarrow> string" where
  "str v = (case v of PStr s \<Rightarrow> s | _ \<Rightarrow> repr v)"

text \<open>\<^verbatim>\<open>type(v).__name__\<close>.\<close>

fun type_name :: "pyval \<Rightarrow> string" where
  "type_name Empty = ''object''"
| "type_name PNone = ''NoneType''"
| "type_name (PBool b) = ''bool''"
| "type_name (PInt i) = ''int''"
| "type_name (PStr s) = ''str''"
| "type_name (PList xs) = ''list''"
| "type_name (PDict kvs) = ''dict''"
| "type_name (Object t r) = t"

subsection \<open>Dicts\<close>

text \<open>\<^verbatim>\<open>hash(v)\<close> succeeds.  A key of a dict is hashable.\<close>

fun hashable :: "pyval \<Rightarrow> bool" where
  "hashable (PList xs) = False"
| "hashable (PDict kvs) = False"
| "hashable v = True"

text \<open>Two keys are one key when they are equal as Python compares them: \<^verbatim>\<open>True\<close> is 1 and
  \<^verbatim>\<open>False\<close> is 0.  \<^verbatim>\<open>d[k] = v\<close> on a dict in insertion order replaces the value of a key that
  is there (the first key object stays) and appends a new key at the end.\<close>

fun norm_key :: "pyval \<Rightarrow> pyval" where
  "norm_key (PBool b) = PInt (if b then 1 else 0)"
| "norm_key v = v"

fun dict_setitem :: "(pyval \<times> 'v) list \<Rightarrow> pyval \<Rightarrow> 'v \<Rightarrow> (pyval \<times> 'v) list" where
  "dict_setitem [] k v = [(k, v)]"
| "dict_setitem ((k', v') # kvs) k v =
     (if norm_key k' = norm_key k then (k', v) # kvs else (k', v') # dict_setitem kvs k v)"

text \<open>The same for a dict whose keys are compared as they are written (strings, or the
  keys of an error tree).\<close>

fun odict_set :: "('k \<times> 'v) list \<Rightarrow> 'k \<Rightarrow> 'v \<Rightarrow> ('k \<times> 'v) list" where
  "odict_set [] k v = [(k, v)]"
| "odict_set ((k', v') # kvs) k v =
     (if k' = k then (k', v) # kvs else (k', v') # odict_set kvs k v)"


section \<open>Errors\<close>

text \<open>
  \<^verbatim>\<open>RpcException.__init__\<close> (\<^verbatim>\<open>exceptions.py\<close>) keeps its message in \<^verbatim>\<open>details\<close>, a string:
  a \<^verbatim>\<open>str\<close> as it is, a list or a dict as \<^verbatim>\<open>json_encode(message)\<close>.  The encoder is the
  JSON library's; its output is kept in structured form: \<open>JsonList ds\<close> stands for the
  encoding of the list of the strings \<open>ds\<close>, \<open>JsonDict kvs\<close> for the encoding of the
  ordered dict \<open>kvs\<close>, whose keys are field names or list positions.
\<close>

datatype ekey = Name string | Index nat

datatype details =
    Message string
  | JsonList "details list"
  | JsonDict "(ekey \<times> details) list"

text \<open>\<^verbatim>\<open>bool(details)\<close>: a string is true unless it is empty; an encoding is never empty.\<close>

fun truthy_details :: "details \<Rightarrow> bool" where
  "truthy_details (Message s) = (s \<noteq> [])"
| "truthy_details (JsonList ds) = True"
| "truthy_details (JsonDict kvs) = True"

datatype exn =
    ValidationError details
  | SkipFieldException
  | NameError string
  | TypeError
  | ValueError
  | KeyError string
  | IndexError
  | AttributeError string

text \<open>
  A message template in parsed form: literal text and replacement fields \<^verbatim>\<open>{name}\<close>, each
  a plain field name (no attribute or index access, no conversion, no format
  specification).  \<^verbatim>\<open>template.format(**kwargs)\<close> goes through the fields from left to right
  and writes \<^verbatim>\<open>str(value)\<close> for a field.  A name that is not among the keyword arguments
  raises \<^verbatim>\<open>KeyError\<close>.  An empty name or a name of decimal digits asks for a positional
  argument, and there is none: \<^verbatim>\<open>IndexError\<close>, or \<^verbatim>\<open>ValueError\<close> when the number does not fit
  the index type (63 bits).
\<close>

datatype piece = Lit string | Hole string

type_synonym template = "piece list"

definition lookup_field :: "string \<Rightarrow> (string \<times> pyval) list \<Rightarrow> exn + pyval" where
  "lookup_field n kwargs =
     (if list_all is_digit n then
        (if foldl (\<lambda>a c. 10 * a + digit_val c) 0 n < 2 ^ 63 then Inl IndexError else Inl ValueError)
      else case map_of kwargs n of None \<Rightarrow> Inl (KeyError n) | Some v \<Rightarrow> Inr v)"

fun format :: "template \<Rightarrow> (string \<times> pyval) list \<Rightarrow> exn + string" where
  "format [] kwargs = Inr []"
| "format (Lit s # ps) kwargs =
     (case format ps kwargs of Inl e \<Rightarrow> Inl e | Inr r \<Rightarrow> Inr (s @ r))"
| "format (Hole n # ps) kwargs =
     (case lookup_field n kwargs of
        Inl e \<Rightarrow> Inl e
      | Inr v \<Rightarrow> (case format ps kwargs of Inl e \<Rightarrow> Inl e | Inr r \<Rightarrow> Inr (str v @ r)))"

section \<open>Fields\<close>

text \<open>
  Validators, cleaning hooks and callable defaults are code of the schema's author.
  They may have effects and may raise, so each is a function of a state \<open>'w\<close> (whatever
  the author's code can change) that returns its result, or the exception it raised,
  and the new state.  A validator that has a \<^verbatim>\<open>set_context\<close> method is called after it;
  the call is part of the validator's function here.
\<close>

type_synonym 'w validator = "pyval \<Rightarrow> 'w \<Rightarrow> (exn + unit) \<times> 'w"

type_synonym 'w hook = "pyval \<Rightarrow> 'w \<Rightarrow> (exn + pyval) \<times> 'w"

text \<open>The \<^verbatim>\<open>default\<close> argument of a field: a value (the sentinel \<open>Empty\<close> when none is
  given) or a callable.\<close>

datatype 'w default = DefaultValue pyval | DefaultCallable "'w \<Rightarrow> (exn + pyval) \<times> 'w"

text \<open>The \<^verbatim>\<open>choices\<close> argument of a \<^verbatim>\<open>ChoiceField\<close>, as \<^verbatim>\<open>to_choices_dict\<close> iterates it: a
  single choice, a pair of a key and its display value, or a pair of a category and its
  sub-choices.  A single choice and a display value are not sequences.\<close>

datatype choice = Single pyval | Pair pyval pyval | Group pyval "choice list"

text \<open>
  A field: the attributes \<^verbatim>\<open>Field.__init__\<close> and \<^verbatim>\<open>Field.bind\<close> set, and the attributes
  of its class.  \<open>source\<close> is the attribute after \<^verbatim>\<open>bind\<close> (the field's name when no source
  was given).  A serializer class keeps the fields it declares under their names, in
  declaration order (\<^verbatim>\<open>base_fields\<close>), its \<^verbatim>\<open>clean_<field_name>\<close> methods, its \<^verbatim>\<open>clean\<close>
  method and its \<^verbatim>\<open>partial\<close> flag; \<open>validators\<close> of a serializer are its
  \<^verbatim>\<open>Meta.validators\<close>.  A \<^verbatim>\<open>ListSerializer\<close> also records whether it has a parent.
\<close>

datatype 'w field = Field
    (required: bool)
    (allow_null: bool)
    (default_kw: "'w default")
    (source: string)
    (validators: "'w validator list")
    (error_messages_kw: "(string \<times> template) list")
    (kind: "'w kind")
and 'w kind =
    BooleanField
  | NullBooleanField
  | CharField (allow_blank: bool) (trim_whitespace: bool)
  | IntegerField
  | ChoiceField (choices: "choice list") (allow_blank: bool)
  | UnvalidatedField
  | ListField (child: "'w field") (allow_empty: bool)
  | SerializerMethodField (method_kw: "'w hook option")
  | Serializer (base_fields: "(string \<times> 'w field) list") (clean_field: "string \<Rightarrow> 'w hook option")
      (clean: "'w hook") (partial: bool)
  | ListSerializer (child: "'w field") (allow_empty: bool) (has_parent: bool) (partial: bool)

subsection \<open>The fields of a serializer object\<close>

text \<open>
  \<^verbatim>\<open>copy.deepcopy\<close> makes a new object of every object it meets that is not of a type it
  copies atomically (numbers, strings, \<^verbatim>\<open>None\<close>, functions).  The sentinel \<^verbatim>\<open>empty\<close> is a plain
  \<^verbatim>\<open>object()\<close>: its copy is another object, which \<^verbatim>\<open>is empty\<close> does not recognise.
\<close>

definition sentinel_copy :: pyval where
  "sentinel_copy = Object ''object'' ''<object object>''"

fun deepcopy_value :: "pyval \<Rightarrow> pyval" where
  "deepcopy_value Empty = sentinel_copy"
| "deepcopy_value (PList xs) = PList (map deepcopy_value xs)"
| "deepcopy_value (PDict kvs) = PDict (map (\<lambda>(k, v). (deepcopy_value k, deepcopy_value v)) kvs)"
| "deepcopy_value v = v"

fun deepcopy_default :: "'w default \<Rightarrow> 'w default" where
  "deepcopy_default (DefaultValue v) = DefaultValue (deepcopy_value v)"
| "deepcopy_default (DefaultCallable c) = DefaultCallable c"

text \<open>
  The copy of a field: the copies of its attributes.  Among the attributes kept here the
  \<^verbatim>\<open>default\<close> is the one that can hold the sentinel (it does when the field was given no
  default); the child of a list is an attribute and is copied with it; the declared
  fields of a serializer are an attribute of its class, not of the object.
\<close>

fun deepcopy :: "'w field \<Rightarrow> 'w field" and deepcopy_kind :: "'w kind \<Rightarrow> 'w kind" where
  "deepcopy (Field req an dflt src vs msgs k) =
     Field req an (deepcopy_default dflt) src vs msgs (deepcopy_kind k)"
| "deepcopy_kind (ListField ch ae) = ListField (deepcopy ch) ae"
| "deepcopy_kind (ListSerializer ch ae hp p) = ListSerializer (deepcopy ch) ae hp p"
| "deepcopy_kind k = k"

text \<open>The property \<^verbatim>\<open>fields\<close> of a serializer object: \<^verbatim>\<open>copy.deepcopy(self.base_fields)\<close>, each
  field then bound under its name.\<close>

definition fields :: "(string \<times> 'w field) list \<Rightarrow> (string \<times> 'w field) list" where
  "fields base = map (\<lambda>(fn, field). (fn, deepcopy field)) base"

subsection \<open>Error messages and \<^verbatim>\<open>fail\<close>\<close>

definition Field_messages :: "(string \<times> template) list" where
  "Field_messages =
     [(''required'', [Lit ''This field is required.'']),
      (''null'', [Lit ''This field may not be null.''])]"

definition list_messages :: "(string \<times> template) list" where
  "list_messages =
     [(''not_a_list'', [Lit (''Expected a list of items but got type '' @ [CHR 0x22]), Hole ''input_type'',
         Lit (CHR 0x22 # ''.'')]),
      (''empty'', [Lit ''This list may not be empty.''])]"

text \<open>\<^verbatim>\<open>default_error_messages\<close> of a class, before those of its base class \<^verbatim>\<open>Field\<close>.\<close>

fun default_error_messages :: "'w kind \<Rightarrow> (string \<times> template) list" where
  "default_error_messages BooleanField = [(''invalid'', [Lit ''Must be a valid boolean.''])]"
| "default_error_messages NullBooleanField = [(''invalid'', [Lit ''Must be a valid boolean.''])]"
| "default_error_messages (CharField ab tw) =
     [(''invalid'', [Lit ''Not a valid string.'']), (''blank'', [Lit ''This field may not be blank.''])]"
| "default_error_messages IntegerField =
     [(''invalid'', [Lit ''A valid integer is required.'']),
      (''max_string_length'', [Lit ''String value too large.''])]"
| "default_error_messages (ChoiceField cs ab) =
     [(''invalid_choice'', [Lit [CHR 0x22], Hole ''input'', Lit (CHR 0x22 # '' is not a valid choice.'')])]"
| "default_error_messages UnvalidatedField = []"
| "default_error_messages (ListField c ae) = list_messages"
| "default_error_messages (SerializerMethodField m) = []"
| "default_error_messages (Serializer fs cf c p) =
     [(''invalid'', [Lit ''Invalid data. Expected a dictionary, but got '', Hole ''datatype'', Lit ''.''])]"
| "default_error_messages (ListSerializer c ae hp p) = list_messages"

text \<open>\<^verbatim>\<open>self.error_messages\<close>: the defaults of the classes along the MRO, the subclass over
  \<^verbatim>\<open>Field\<close>, then the \<^verbatim>\<open>error_messages\<close> argument over both.\<close>

definition error_messages :: "'w field \<Rightarrow> string \<Rightarrow> template option" where
  "error_messages f key =
     (case map_of (error_messages_kw f) key of
        Some t \<Rightarrow> Some t
      | None \<Rightarrow>
          (case map_of (default_error_messages (kind f)) key of
             Some t \<Rightarrow> Some t
           | None \<Rightarrow> map_of Field_messages key))"

text \<open>\<^verbatim>\<open>Field.fail\<close> always raises; the result is the exception.\<close>

definition fail :: "'w field \<Rightarrow> string \<Rightarrow> (string \<times> pyval) list \<Rightarrow> exn" where
  "fail f key kwargs =
     (let msg = (case error_messages f key of None \<Rightarrow> [Lit ''Invalid Argument''] | Some t \<Rightarrow> t)
      in case format msg kwargs of
           Inl e \<Rightarrow> e
         | Inr message_string \<Rightarrow> ValidationError (Message message_string))"

subsection \<open>Scalar fields\<close>

text \<open>\<^verbatim>\<open>bool(v)\<close> and \<^verbatim>\<open>int(v)\<close>.\<close>

fun truthy :: "pyval \<Rightarrow> bool" where
  "truthy Empty = True"
| "truthy PNone = False"
| "truthy (PBool b) = b"
| "truthy (PInt i) = (i \<noteq> 0)"
| "truthy (PStr s) = (s \<noteq> [])"
| "truthy (PList xs) = (xs \<noteq> [])"
| "truthy (PDict kvs) = (kvs \<noteq> [])"
| "truthy (Object t r) = True"

fun py_int :: "pyval \<Rightarrow> exn + pyval" where
  "py_int (PInt i) = Inr (PInt i)"
| "py_int (PBool b) = Inr (PInt (if b then 1 else 0))"
| "py_int (PStr s) = (case int_of_str s of None \<Rightarrow> Inl ValueError | Some i \<Rightarrow> Inr (PInt i))"
| "py_int v = Inl TypeError"

text \<open>Membership in the literal sets of \<^verbatim>\<open>BooleanField\<close>, for a hashable value: \<^verbatim>\<open>1\<close> and
  \<^verbatim>\<open>True\<close> are one element, and so are \<^verbatim>\<open>0\<close> and \<^verbatim>\<open>False\<close>.\<close>

fun in_values :: "string list \<Rightarrow> int option \<Rightarrow> bool \<Rightarrow> pyval \<Rightarrow> bool" where
  "in_values strs num has_none (PStr s) = (s \<in> set strs)"
| "in_values strs num has_none (PInt i) = (num = Some i)"
| "in_values strs num has_none (PBool b) = (num = Some (if b then 1 else 0))"
| "in_values strs num has_none PNone = has_none"
| "in_values strs num has_none v = False"

definition BooleanField_TRUE_VALUES :: "pyval \<Rightarrow> bool" where
  "BooleanField_TRUE_VALUES =
     in_values [''t'', ''T'', ''y'', ''Y'', ''yes'', ''YES'', ''true'', ''True'', ''TRUE'', ''on'', ''On'', ''ON'', ''1'']
       (Some 1) False"

definition BooleanField_FALSE_VALUES :: "pyval \<Rightarrow> bool" where
  "BooleanField_FALSE_VALUES =
     in_values [''f'', ''F'', ''n'', ''N'', ''no'', ''NO'', ''false'', ''False'', ''FALSE'', ''off'', ''Off'', ''OFF'', ''0'']
       (Some 0) False"

definition BooleanField_NULL_VALUES :: "pyval \<Rightarrow> bool" where
  "BooleanField_NULL_VALUES = in_values [''null'', ''Null'', ''NULL'', []] None True"

definition BooleanField_to_internal_value :: "'w field \<Rightarrow> pyval \<Rightarrow> exn + pyval" where
  "BooleanField_to_internal_value f data =
     (if hashable data \<and> BooleanField_TRUE_VALUES data then Inr (PBool True)
      else if hashable data \<and> BooleanField_FALSE_VALUES data then Inr (PBool False)
      else if hashable data \<and> BooleanField_NULL_VALUES data \<and> allow_null f then Inr PNone
      else Inl (fail f ''invalid'' []))"

definition BooleanField_to_representation :: "'w field \<Rightarrow> pyval \<Rightarrow> exn + pyval" where
  "BooleanField_to_representation f v =
     (if \<not> hashable v then Inl TypeError
      else if BooleanField_TRUE_VALUES v then Inr (PBool True)
      else if BooleanField_FALSE_VALUES v then Inr (PBool False)
      else if BooleanField_NULL_VALUES v \<and> allow_null f then Inr PNone
      else Inr (PBool (truthy v)))"

definition NullBooleanField_TRUE_VALUES :: "pyval \<Rightarrow> bool" where
  "NullBooleanField_TRUE_VALUES = in_values [''t'', ''T'', ''true'', ''True'', ''TRUE'', ''1''] (Some 1) False"

definition NullBooleanField_FALSE_VALUES :: "pyval \<Rightarrow> bool" where
  "NullBooleanField_FALSE_VALUES = in_values [''f'', ''F'', ''false'', ''False'', ''FALSE'', ''0''] (Some 0) False"

definition NullBooleanField_NULL_VALUES :: "pyval \<Rightarrow> bool" where
  "NullBooleanField_NULL_VALUES = in_values [''n'', ''N'', ''null'', ''Null'', ''NULL'', []] None True"

definition NullBooleanField_to_internal_value :: "'w field \<Rightarrow> pyval \<Rightarrow> exn + pyval" where
  "NullBooleanField_to_internal_value f data =
     (if hashable data \<and> NullBooleanField_TRUE_VALUES data then Inr (PBool True)
      else if hashable data \<and> NullBooleanField_FALSE_VALUES data then Inr (PBool False)
      else if hashable data \<and> NullBooleanField_NULL_VALUES data then Inr PNone
      else Inl (fail f ''invalid'' []))"

definition NullBooleanField_to_representation :: "'w field \<Rightarrow> pyval \<Rightarrow> exn + pyval" where
  "NullBooleanField_to_representation f v =
     (if \<not> hashable v then Inl TypeError
      else if NullBooleanField_NULL_VALUES v then Inr PNone
      else if NullBooleanField_TRUE_VALUES v then Inr (PBool True)
      else if NullBooleanField_FALSE_VALUES v then Inr (PBool False)
      else Inr (PBool (truthy v)))"

text \<open>\<^verbatim>\<open>CharField\<close>: a boolean and anything that is not a string or a number is refused.\<close>

definition CharField_to_internal_value :: "'w field \<Rightarrow> pyval \<Rightarrow> exn + pyval" where
  "CharField_to_internal_value f data =
     (if (case data of PStr s \<Rightarrow> False | PInt i \<Rightarrow> False | _ \<Rightarrow> True) then Inl (fail f ''invalid'' [])
      else let v = str data in Inr (PStr (if trim_whitespace (kind f) then strip v else v)))"

definition CharField_to_representation :: "'w field \<Rightarrow> pyval \<Rightarrow> exn + pyval" where
  "CharField_to_representation f v =
     (let v' = str v in Inr (PStr (if trim_whitespace (kind f) then strip v' else v')))"

text \<open>
  \<^verbatim>\<open>IntegerField.re_decimal.sub('', s)\<close> for the pattern \<^verbatim>\<open>\.0*\s*$\<close>: the leftmost dot that
  is followed by zeros and then blanks up to the end of the string is cut off together
  with what follows it.
\<close>

definition zeros_then_spaces :: "string \<Rightarrow> bool" where
  "zeros_then_spaces s = list_all is_space (dropWhile (\<lambda>c. c = CHR ''0'') s)"

fun re_decimal_sub :: "string \<Rightarrow> string" where
  "re_decimal_sub [] = []"
| "re_decimal_sub (c # cs) =
     (if c = CHR ''.'' \<and> zeros_then_spaces cs then [] else c # re_decimal_sub cs)"

definition MAX_STRING_LENGTH :: nat where
  "MAX_STRING_LENGTH = 1000"

definition IntegerField_to_internal_value :: "'w field \<Rightarrow> pyval \<Rightarrow> exn + pyval" where
  "IntegerField_to_internal_value f data =
     (if (case data of PStr s \<Rightarrow> length s > MAX_STRING_LENGTH | _ \<Rightarrow> False)
      then Inl (fail f ''max_string_length'' [])
      else case int_of_str (re_decimal_sub (str data)) of
             None \<Rightarrow> Inl (fail f ''invalid'' [])
           | Some i \<Rightarrow> Inr (PInt i))"

definition IntegerField_to_representation :: "'w field \<Rightarrow> pyval \<Rightarrow> exn + pyval" where
  "IntegerField_to_representation f v = py_int v"

subsection \<open>Choice field\<close>

text \<open>The table of the choices is an ordered dict; the value of a key is a display value
  or, for a category, the table of its sub-choices.\<close>

datatype cvalue = Display pyval | Sub "(pyval \<times> cvalue) list"

fun to_choices_dict :: "(pyval \<times> cvalue) list \<Rightarrow> choice list \<Rightarrow> (pyval \<times> cvalue) list" where
  "to_choices_dict ret [] = ret"
| "to_choices_dict ret (Single c # cs) = to_choices_dict (dict_setitem ret c (Display c)) cs"
| "to_choices_dict ret (Pair k v # cs) = to_choices_dict (dict_setitem ret k (Display v)) cs"
| "to_choices_dict ret (Group k sub # cs) =
     to_choices_dict (dict_setitem ret k (Sub (to_choices_dict [] sub))) cs"

text \<open>\<^verbatim>\<open>flatten_choices_dict\<close>: a value that is a dict (the sub-choices of a category, or
  a display value that is a mapping) is flattened one level.\<close>

fun flatten_choices_dict :: "(pyval \<times> cvalue) list \<Rightarrow> (pyval \<times> cvalue) list \<Rightarrow> (pyval \<times> cvalue) list" where
  "flatten_choices_dict ret [] = ret"
| "flatten_choices_dict ret ((key, Sub sub) # kvs) =
     flatten_choices_dict (foldl (\<lambda>r (sub_key, sub_value). dict_setitem r sub_key sub_value) ret sub) kvs"
| "flatten_choices_dict ret ((key, Display (PDict d)) # kvs) =
     flatten_choices_dict (foldl (\<lambda>r (sub_key, sub_value). dict_setitem r sub_key (Display sub_value)) ret d) kvs"
| "flatten_choices_dict ret ((key, Display v) # kvs) = flatten_choices_dict (dict_setitem ret key (Display v)) kvs"

text \<open>\<^verbatim>\<open>ChoiceField._set_choices\<close>: the flattened table, and
  \<^verbatim>\<open>{str(key): key for key in self.choices}\<close>.\<close>

definition choices_table :: "choice list \<Rightarrow> (pyval \<times> cvalue) list" where
  "choices_table cs = flatten_choices_dict [] (to_choices_dict [] cs)"

definition choice_strings_to_values :: "choice list \<Rightarrow> (string \<times> pyval) list" where
  "choice_strings_to_values cs = foldl (\<lambda>d key. odict_set d (str key) key) [] (map fst (choices_table cs))"

text \<open>Iterating a dict yields its keys: \<^verbatim>\<open>ChoiceField(choices={1: 'First', 2: 'Second'})\<close>
  hands \<^verbatim>\<open>to_choices_dict\<close> the single choices 1 and 2.\<close>

definition dict_choices :: "(pyval \<times> pyval) list \<Rightarrow> choice list" where
  "dict_choices d = map (\<lambda>(k, v). Single k) d"

definition ChoiceField_to_internal_value :: "'w field \<Rightarrow> pyval \<Rightarrow> exn + pyval" where
  "ChoiceField_to_internal_value f data =
     (if data = PStr [] \<and> allow_blank (kind f) then Inr (PStr [])
      else case map_of (choice_strings_to_values (choices (kind f))) (str data) of
             Some key \<Rightarrow> Inr key
           | None \<Rightarrow> Inl (fail f ''invalid_choice'' [(''input'', data)]))"

definition ChoiceField_to_representation :: "'w field \<Rightarrow> pyval \<Rightarrow> exn + pyval" where
  "ChoiceField_to_representation f v =
     (if v = PStr [] \<or> v = PNone then Inr v
      else case map_of (choice_strings_to_values (choices (kind f))) (str v) of
             Some key \<Rightarrow> Inr key
           | None \<Rightarrow> Inr v)"

subsection \<open>Validators of \<^verbatim>\<open>validators.py\<close> that the field constructors attach\<close>

text \<open>
  \<^verbatim>\<open>BaseValidator.__call__\<close> compares the cleaned value with the limit and, when the
  comparison holds, executes \<^verbatim>\<open>raise ValidationError(self.message, params=params)\<close>.
  \<^verbatim>\<open>RpcException.__init__\<close> hands the keyword argument on to \<^verbatim>\<open>Exception.__init__\<close>, which
  takes no keyword arguments, so what the statement raises is a \<^verbatim>\<open>TypeError\<close>.
\<close>

definition BaseValidator_raise :: exn where
  "BaseValidator_raise = TypeError"

fun py_len :: "pyval \<Rightarrow> nat option" where
  "py_len (PStr s) = Some (length s)"
| "py_len (PList xs) = Some (length xs)"
| "py_len (PDict kvs) = Some (length kvs)"
| "py_len v = None"

fun py_number :: "pyval \<Rightarrow> int option" where
  "py_number (PInt i) = Some i"
| "py_number (PBool b) = Some (if b then 1 else 0)"
| "py_number v = None"

definition MinLengthValidator :: "int \<Rightarrow> 'w validator" where
  "MinLengthValidator limit_value v w =
     (case py_len v of
        None \<Rightarrow> (Inl TypeError, w)
      | Some cleaned \<Rightarrow> if int cleaned < limit_value then (Inl BaseValidator_raise, w) else (Inr (), w))"

definition MaxLengthValidator :: "int \<Rightarrow> 'w validator" where
  "MaxLengthValidator limit_value v w =
     (case py_len v of
        None \<Rightarrow> (Inl TypeError, w)
      | Some cleaned \<Rightarrow> if int cleaned > limit_value then (Inl BaseValidator_raise, w) else (Inr (), w))"

definition MaxValueValidator :: "int \<Rightarrow> 'w validator" where
  "MaxValueValidator limit_value v w =
     (case py_number v of
        None \<Rightarrow> (Inl TypeError, w)
      | Some cleaned \<Rightarrow> if cleaned > limit_value then (Inl BaseValidator_raise, w) else (Inr (), w))"

definition MinValueValidator :: "int \<Rightarrow> 'w validator" where
  "MinValueValidator limit_value v w =
     (case py_number v of
        None \<Rightarrow> (Inl TypeError, w)
      | Some cleaned \<Rightarrow> if cleaned < limit_value then (Inl BaseValidator_raise, w) else (Inr (), w))"

text \<open>\<^verbatim>\<open>CharField.__init__\<close> and \<^verbatim>\<open>IntegerField.__init__\<close> append the validators of their
  limits to \<^verbatim>\<open>self.validators\<close>.  The arguments are those of \<^verbatim>\<open>Field.__init__\<close> (with the
  source as bound), then the class's own.\<close>

definition CharField_init ::
  "bool \<Rightarrow> bool \<Rightarrow> 'w default \<Rightarrow> string \<Rightarrow> 'w validator list \<Rightarrow> (string \<times> template) list \<Rightarrow>
   bool \<Rightarrow> bool \<Rightarrow> int option \<Rightarrow> int option \<Rightarrow> 'w field" where
  "CharField_init req an dflt src vs msgs ab tw max_length min_length =
     Field req an dflt src
       (vs @ (case min_length of None \<Rightarrow> [] | Some n \<Rightarrow> [MinLengthValidator n])
           @ (case max_length of None \<Rightarrow> [] | Some n \<Rightarrow> [MaxLengthValidator n]))
       msgs (CharField ab tw)"

definition IntegerField_init ::
  "bool \<Rightarrow> bool \<Rightarrow> 'w default \<Rightarrow> string \<Rightarrow> 'w validator list \<Rightarrow> (string \<times> template) list \<Rightarrow>
   int option \<Rightarrow> int option \<Rightarrow> 'w field" where
  "IntegerField_init req an dflt src vs msgs max_value min_value =
     Field req an dflt src
       (vs @ (case max_value of None \<Rightarrow> [] | Some n \<Rightarrow> [MaxValueValidator n])
           @ (case min_value of None \<Rightarrow> [] | Some n \<Rightarrow> [MinValueValidator n]))
       msgs IntegerField"

subsection \<open>Empty values, defaults and the validator pipeline\<close>

text \<open>In what follows \<open>root_partial\<close> is \<^verbatim>\<open>getattr(self.root, 'partial', False)\<close>: the
  \<^verbatim>\<open>partial\<close> flag of the serializer at the top of the parent chain.  \<^verbatim>\<open>Field.get_default\<close>
  tests \<^verbatim>\<open>self.default is empty\<close>; a default that is not callable is returned as it is, a
  copy of the sentinel too.\<close>

definition get_default :: "bool \<Rightarrow> 'w field \<Rightarrow> 'w \<Rightarrow> (exn + pyval) \<times> 'w" where
  "get_default root_partial f w =
     (case default_kw f of
        DefaultValue v \<Rightarrow>
          if v = Empty \<or> root_partial then (Inl SkipFieldException, w) else (Inr v, w)
      | DefaultCallable c \<Rightarrow>
          if root_partial then (Inl SkipFieldException, w) else c w)"

definition validate_empty_values :: "bool \<Rightarrow> 'w field \<Rightarrow> pyval \<Rightarrow> 'w \<Rightarrow> (exn + bool \<times> pyval) \<times> 'w" where
  "validate_empty_values root_partial f data w =
     (if data = Empty then
        if root_partial then (Inl SkipFieldException, w)
        else if required f then (Inl (fail f ''required'' []), w)
        else (case get_default root_partial f w of
                (Inl e, w') \<Rightarrow> (Inl e, w')
              | (Inr v, w') \<Rightarrow> (Inr (True, v), w'))
      else if data = PNone then
        if \<not> allow_null f then (Inl (fail f ''null'' []), w)
        else if source f = ''*'' then (Inr (False, PNone), w)
        else (Inr (True, PNone), w)
      else (Inr (False, data), w))"

text \<open>The loop of \<^verbatim>\<open>Field.run_validators\<close>: \<open>errors\<close> is the list collected so far.  Only a
  \<^verbatim>\<open>ValidationError\<close> is caught; any other exception leaves the loop.\<close>

fun run_validators_loop :: "'w validator list \<Rightarrow> pyval \<Rightarrow> details list \<Rightarrow> 'w \<Rightarrow> (exn + details list) \<times> 'w" where
  "run_validators_loop [] v errors w = (Inr errors, w)"
| "run_validators_loop (validator # vs) v errors w =
     (case validator v w of
        (Inr u, w') \<Rightarrow> run_validators_loop vs v errors w'
      | (Inl (ValidationError d), w') \<Rightarrow> run_validators_loop vs v (errors @ [d]) w'
      | (Inl e, w') \<Rightarrow> (Inl e, w'))"

definition run_validators :: "'w field \<Rightarrow> pyval \<Rightarrow> 'w \<Rightarrow> (exn + unit) \<times> 'w" where
  "run_validators f v w =
     (case run_validators_loop (validators f) v [] w of
        (Inl e, w') \<Rightarrow> (Inl e, w')
      | (Inr errors, w') \<Rightarrow>
          if errors \<noteq> [] then (Inl (ValidationError (JsonList errors)), w') else (Inr (), w'))"

subsection \<open>Reading the input and writing the output tree\<close>

text \<open>
  \<^verbatim>\<open>Field.get_value\<close>: \<^verbatim>\<open>dictionary.get(self.field_name, empty)\<close> for a mapping (which holds a
  key once), and \<^verbatim>\<open>getattr(dictionary, self.field_name, empty)\<close> for any other value.  Which
  attributes a value that is not a mapping has (an \<^verbatim>\<open>int\<close> has \<^verbatim>\<open>real\<close>, a \<^verbatim>\<open>str\<close> has \<^verbatim>\<open>upper\<close>)
  is decided by the interpreter, not by this code: \<open>getattr\<close>, the function that answers
  \<^verbatim>\<open>getattr(v, name, empty)\<close>, is a parameter of everything that reads the input.
\<close>

type_synonym getattr = "pyval \<Rightarrow> string \<Rightarrow> pyval"

definition get_value :: "getattr \<Rightarrow> string \<Rightarrow> pyval \<Rightarrow> pyval" where
  "get_value getattr field_name dictionary =
     (case dictionary of
        PDict kvs \<Rightarrow> (case map_of kvs (PStr field_name) of Some v \<Rightarrow> v | None \<Rightarrow> Empty)
      | _ \<Rightarrow> getattr dictionary field_name)"

text \<open>\<^verbatim>\<open>source.split('.')\<close> and the \<^verbatim>\<open>source_attrs\<close> that \<^verbatim>\<open>Field.bind\<close> computes.\<close>

fun split_dot :: "string \<Rightarrow> string list" where
  "split_dot [] = [[]]"
| "split_dot (c # cs) =
     (if c = CHR ''.'' then [] # split_dot cs
      else (case split_dot cs of [] \<Rightarrow> [[c]] | x # xs \<Rightarrow> (c # x) # xs))"

definition source_attrs :: "'w field \<Rightarrow> string list" where
  "source_attrs f = (if source f = ''*'' then [] else split_dot (source f))"

text \<open>
  \<^verbatim>\<open>d.update(other)\<close>, returning the dict it leaves.  A dict is merged key by key.  Any
  other value is iterated (a value that is not iterable raises \<^verbatim>\<open>TypeError\<close>), and each
  element must be a sequence of two elements, a key and a value: an element that is not
  iterable raises \<^verbatim>\<open>TypeError\<close>, one of another length \<^verbatim>\<open>ValueError\<close>, a key that is not hashable
  \<^verbatim>\<open>TypeError\<close>.  Iterating a string gives its characters, iterating a dict its keys.
\<close>

fun update_pair :: "pyval \<Rightarrow> exn + pyval \<times> pyval" where
  "update_pair (PList xs) = (case xs of [k, v] \<Rightarrow> Inr (k, v) | _ \<Rightarrow> Inl ValueError)"
| "update_pair (PStr s) = (case s of [a, b] \<Rightarrow> Inr (PStr [a], PStr [b]) | _ \<Rightarrow> Inl ValueError)"
| "update_pair (PDict kvs) = (case kvs of [(k1, v1), (k2, v2)] \<Rightarrow> Inr (k1, k2) | _ \<Rightarrow> Inl ValueError)"
| "update_pair v = Inl TypeError"

fun update_pairs :: "(pyval \<times> pyval) list \<Rightarrow> pyval list \<Rightarrow> exn + (pyval \<times> pyval) list" where
  "update_pairs d [] = Inr d"
| "update_pairs d (e # es) =
     (case update_pair e of
        Inl ex \<Rightarrow> Inl ex
      | Inr (k, v) \<Rightarrow> if hashable k then update_pairs (dict_setitem d k v) es else Inl TypeError)"

definition dict_update :: "(pyval \<times> pyval) list \<Rightarrow> pyval \<Rightarrow> exn + (pyval \<times> pyval) list" where
  "dict_update d other =
     (case other of
        PDict kvs \<Rightarrow> Inr (foldl (\<lambda>r (k, v). dict_setitem r k v) d kvs)
      | PList xs \<Rightarrow> update_pairs d xs
      | PStr s \<Rightarrow> update_pairs d (map (\<lambda>c. PStr [c]) s)
      | _ \<Rightarrow> Inl TypeError)"

text \<open>
  \<^verbatim>\<open>set_value(dictionary, keys, value)\<close> of \<^verbatim>\<open>serializers.py\<close>, returning the dictionary it
  leaves.  With no keys the value is merged into the dictionary by \<^verbatim>\<open>dict.update\<close>.  Along
  the keys, a value that is not a dictionary cannot be tested for a string key and then
  indexed or assigned by it: whichever of these comes first raises \<^verbatim>\<open>TypeError\<close>.  Values are
  trees: no object is shared between two places.
\<close>

fun set_value :: "(pyval \<times> pyval) list \<Rightarrow> string list \<Rightarrow> pyval \<Rightarrow> exn + (pyval \<times> pyval) list" where
  "set_value dictionary [] v = dict_update dictionary v"
| "set_value dictionary [key] v = Inr (dict_setitem dictionary (PStr key) v)"
| "set_value dictionary (key # k # ks) v =
     (let d = (if map_of dictionary (PStr key) = None then dict_setitem dictionary (PStr key) (PDict [])
               else dictionary)
      in case map_of d (PStr key) of
           Some (PDict sub) \<Rightarrow>
             (case set_value sub (k # ks) v of
                Inl e \<Rightarrow> Inl e
              | Inr sub' \<Rightarrow> Inr (dict_setitem d (PStr key) (PDict sub')))
         | _ \<Rightarrow> Inl TypeError)"

subsection \<open>Validation\<close>

text \<open>
  A method that calls \<^verbatim>\<open>self.to_internal_value\<close> or \<^verbatim>\<open>self.child.run_validation\<close> calls
  whatever the class of \<^verbatim>\<open>self\<close> or of the child resolves the name to; here it takes that
  method as its first argument.  \<^verbatim>\<open>Field.run_validation\<close>:
\<close>

definition Field_run_validation ::
  "(pyval \<Rightarrow> 'w \<Rightarrow> (exn + pyval) \<times> 'w) \<Rightarrow> bool \<Rightarrow> 'w field \<Rightarrow> pyval \<Rightarrow> 'w \<Rightarrow> (exn + pyval) \<times> 'w" where
  "Field_run_validation self_to_internal_value root_partial f data w =
     (case validate_empty_values root_partial f data w of
        (Inl e, w1) \<Rightarrow> (Inl e, w1)
      | (Inr (is_empty_value, data1), w1) \<Rightarrow>
          if is_empty_value then (Inr data1, w1)
          else (case self_to_internal_value data1 w1 of
                  (Inl e, w2) \<Rightarrow> (Inl e, w2)
                | (Inr v, w2) \<Rightarrow>
                    (case run_validators f v w2 of
                       (Inl e, w3) \<Rightarrow> (Inl e, w3)
                     | (Inr u, w3) \<Rightarrow> (Inr v, w3))))"

definition CharField_run_validation ::
  "(pyval \<Rightarrow> 'w \<Rightarrow> (exn + pyval) \<times> 'w) \<Rightarrow> bool \<Rightarrow> 'w field \<Rightarrow> pyval \<Rightarrow> 'w \<Rightarrow> (exn + pyval) \<times> 'w" where
  "CharField_run_validation self_to_internal_value root_partial f data w =
     (if data = PStr [] \<or> (trim_whitespace (kind f) \<and> strip (str data) = []) then
        (if \<not> allow_blank (kind f) then (Inl (fail f ''blank'' []), w) else (Inr (PStr []), w))
      else Field_run_validation self_to_internal_value root_partial f data w)"

text \<open>\<^verbatim>\<open>BaseFormSerializer.run_validation\<close>; the \<^verbatim>\<open>clean\<close> method of a \<^verbatim>\<open>ListSerializer\<close> is the
  inherited one, which returns its argument.\<close>

definition self_clean :: "'w field \<Rightarrow> 'w hook" where
  "self_clean f = (case kind f of Serializer fs cf c p \<Rightarrow> c | _ \<Rightarrow> (\<lambda>v w. (Inr v, w)))"

definition BaseFormSerializer_run_validation ::
  "(pyval \<Rightarrow> 'w \<Rightarrow> (exn + pyval) \<times> 'w) \<Rightarrow> bool \<Rightarrow> 'w field \<Rightarrow> pyval \<Rightarrow> 'w \<Rightarrow> (exn + pyval) \<times> 'w" where
  "BaseFormSerializer_run_validation self_to_internal_value root_partial f data w =
     (case validate_empty_values root_partial f data w of
        (Inl e, w1) \<Rightarrow> (Inl e, w1)
      | (Inr (is_empty_value, data1), w1) \<Rightarrow>
          if is_empty_value then (Inr data1, w1)
          else (case self_to_internal_value data1 w1 of
                  (Inl e, w2) \<Rightarrow> (Inl e, w2)
                | (Inr v, w2) \<Rightarrow>
                    (case run_validators f v w2 of
                       (Inl e, w3) \<Rightarrow> (Inl e, w3)
                     | (Inr u, w3) \<Rightarrow> self_clean f v w3)))"

text \<open>The loop of \<^verbatim>\<open>ListField.run_child_validation\<close>, with the position, the results and
  the errors so far.\<close>

fun run_child_validation ::
  "(pyval \<Rightarrow> 'w \<Rightarrow> (exn + pyval) \<times> 'w) \<Rightarrow> pyval list \<Rightarrow> nat \<Rightarrow> pyval list \<Rightarrow> (ekey \<times> details) list \<Rightarrow> 'w \<Rightarrow>
   (exn + pyval) \<times> 'w" where
  "run_child_validation child_run_validation [] idx result errors w =
     (if errors = [] then (Inr (PList result), w) else (Inl (ValidationError (JsonDict errors)), w))"
| "run_child_validation child_run_validation (item # items) idx result errors w =
     (case child_run_validation item w of
        (Inr v, w') \<Rightarrow> run_child_validation child_run_validation items (Suc idx) (result @ [v]) errors w'
      | (Inl e, w') \<Rightarrow>
          (case e of
             ValidationError d \<Rightarrow>
               run_child_validation child_run_validation items (Suc idx) result (odict_set errors (Index idx) d) w'
           | _ \<Rightarrow> (Inl e, w')))"

definition ListField_to_internal_value ::
  "(pyval \<Rightarrow> 'w \<Rightarrow> (exn + pyval) \<times> 'w) \<Rightarrow> 'w field \<Rightarrow> pyval \<Rightarrow> 'w \<Rightarrow> (exn + pyval) \<times> 'w" where
  "ListField_to_internal_value child_run_validation f data w =
     (case data of
        PList items \<Rightarrow>
          if \<not> allow_empty (kind f) \<and> length items = 0 then (Inl (fail f ''empty'' []), w)
          else run_child_validation child_run_validation items 0 [] [] w
      | _ \<Rightarrow> (Inl (fail f ''not_a_list'' [(''input_type'', PStr (type_name data))]), w))"

text \<open>The loop of \<^verbatim>\<open>ListSerializer.to_internal_value\<close>, with the results and the errors so
  far; \<^verbatim>\<open>any(errors)\<close> asks for an element that is true.\<close>

fun ListSerializer_loop ::
  "(pyval \<Rightarrow> 'w \<Rightarrow> (exn + pyval) \<times> 'w) \<Rightarrow> pyval list \<Rightarrow> pyval list \<Rightarrow> details list \<Rightarrow> 'w \<Rightarrow> (exn + pyval) \<times> 'w" where
  "ListSerializer_loop child_run_validation [] ret errors w =
     (if list_ex truthy_details errors then (Inl (ValidationError (JsonList errors)), w)
      else (Inr (PList ret), w))"
| "ListSerializer_loop child_run_validation (item # items) ret errors w =
     (case child_run_validation item w of
        (Inr validated, w') \<Rightarrow> ListSerializer_loop child_run_validation items (ret @ [validated]) errors w'
      | (Inl e, w') \<Rightarrow>
          (case e of
             ValidationError d \<Rightarrow> ListSerializer_loop child_run_validation items ret (errors @ [d]) w'
           | _ \<Rightarrow> (Inl e, w')))"

definition ListSerializer_to_internal_value ::
  "(pyval \<Rightarrow> 'w \<Rightarrow> (exn + pyval) \<times> 'w) \<Rightarrow> 'w field \<Rightarrow> pyval \<Rightarrow> 'w \<Rightarrow> (exn + pyval) \<times> 'w" where
  "ListSerializer_to_internal_value child_run_validation f data w =
     (case data of
        PList items \<Rightarrow>
          if \<not> allow_empty (kind f) \<and> length items = 0 then
            (if has_parent (kind f) \<and> partial (kind f) then (Inl SkipFieldException, w)
             else (Inl (fail f ''empty'' []), w))
          else ListSerializer_loop child_run_validation items [] [] w
      | _ \<Rightarrow> (Inl (fail f ''not_a_list'' [(''input_type'', PStr (type_name data))]), w))"

text \<open>The \<^verbatim>\<open>clean_<field_name>\<close> method of the serializer, applied to the value a field's
  validation returned (inside the same \<^verbatim>\<open>try\<close>).\<close>

definition validate_method :: "'w hook option \<Rightarrow> (exn + pyval) \<times> 'w \<Rightarrow> (exn + pyval) \<times> 'w" where
  "validate_method m r =
     (case r of
        (Inl e, w) \<Rightarrow> (Inl e, w)
      | (Inr validated_value, w) \<Rightarrow>
          (case m of None \<Rightarrow> (Inr validated_value, w) | Some h \<Rightarrow> h validated_value w))"

text \<open>The loop of \<^verbatim>\<open>BaseFormSerializer.to_internal_value\<close> over \<^verbatim>\<open>self.fields.items()\<close>, with the
  output tree and the errors so far; \<open>field_run_validation\<close> is \<^verbatim>\<open>field.run_validation\<close>.\<close>

fun fields_loop ::
  "getattr \<Rightarrow> ('w field \<Rightarrow> pyval \<Rightarrow> 'w \<Rightarrow> (exn + pyval) \<times> 'w) \<Rightarrow> (string \<Rightarrow> 'w hook option) \<Rightarrow>
   (string \<times> 'w field) list \<Rightarrow> pyval \<Rightarrow> (pyval \<times> pyval) list \<Rightarrow> (ekey \<times> details) list \<Rightarrow> 'w \<Rightarrow>
   (exn + pyval) \<times> 'w" where
  "fields_loop getattr field_run_validation cf [] data ret errors w =
     (if errors \<noteq> [] then (Inl (ValidationError (JsonDict errors)), w) else (Inr (PDict ret), w))"
| "fields_loop getattr field_run_validation cf ((field_name, field) # fs) data ret errors w =
     (case validate_method (cf field_name) (field_run_validation field (get_value getattr field_name data) w) of
        (Inr validated_value, w') \<Rightarrow>
          (case set_value ret (source_attrs field) validated_value of
             Inl e \<Rightarrow> (Inl e, w')
           | Inr ret' \<Rightarrow> fields_loop getattr field_run_validation cf fs data ret' errors w')
      | (Inl e, w') \<Rightarrow>
          (case e of
             ValidationError d \<Rightarrow>
               fields_loop getattr field_run_validation cf fs data ret (odict_set errors (Name field_name) d) w'
           | SkipFieldException \<Rightarrow> fields_loop getattr field_run_validation cf fs data ret errors w'
           | _ \<Rightarrow> (Inl e, w')))"

lemma fields_loop_cong [fundef_cong]:
  assumes "fs = fs'" and "\<And>n fld. (n, fld) \<in> set fs' \<Longrightarrow> run fld = run' fld"
  shows "fields_loop ga run cf fs data ret errors w = fields_loop ga run' cf fs' data ret errors w"
  using assms(2) unfolding assms(1)
proof (induction fs' arbitrary: ret errors w)
  case Nil
  show ?case by simp
next
  case (Cons a fs')
  obtain n fld where a: "a = (n, fld)" by (cases a)
  have r: "run fld = run' fld" using Cons.prems[of n fld] a by simp
  have sub: "\<And>n fld. (n, fld) \<in> set fs' \<Longrightarrow> run fld = run' fld"
    using Cons.prems by auto
  have ih: "\<And>ret errors w. fields_loop ga run cf fs' data ret errors w = fields_loop ga run' cf fs' data ret errors w"
    by (rule Cons.IH) (rule sub)
  show ?case unfolding a by (simp add: r ih split: prod.split sum.split exn.split)
qed

lemma size_field_in_fields:
  "(n, fld) \<in> set fs \<Longrightarrow> size fld < Suc (size_list (size_prod (\<lambda>_. 0) size) fs)"
  by (induction fs) auto

lemma size_deepcopy_default: "size (deepcopy_default d) = size d"
  by (cases d) simp_all

lemma size_deepcopy:
  "size (deepcopy (f :: 'w field)) = size f" "size (deepcopy_kind (k :: 'w kind)) = size k"
  by (induction f and k rule: deepcopy_deepcopy_kind.induct) (simp_all add: size_deepcopy_default)

lemma size_field_in_copies:
  assumes "(n, fld) \<in> set (fields fs)"
  shows "size fld < Suc (size_list (size_prod (\<lambda>_. 0) size) fs)"
proof -
  obtain fld0 where "(n, fld0) \<in> set fs" and "fld = deepcopy fld0"
    using assms by (auto simp: fields_def)
  then show ?thesis using size_field_in_fields[of n fld0 fs] by (simp add: size_deepcopy)
qed

text \<open>Which method a class resolves \<^verbatim>\<open>run_validation\<close> to.\<close>

definition resolve_run_validation ::
  "(pyval \<Rightarrow> 'w \<Rightarrow> (exn + pyval) \<times> 'w) \<Rightarrow> bool \<Rightarrow> 'w field \<Rightarrow> pyval \<Rightarrow> 'w \<Rightarrow> (exn + pyval) \<times> 'w" where
  "resolve_run_validation self_to_internal_value root_partial f data w =
     (case kind f of
        CharField ab tw \<Rightarrow> CharField_run_validation self_to_internal_value root_partial f data w
      | Serializer fs cf c p \<Rightarrow> BaseFormSerializer_run_validation self_to_internal_value root_partial f data w
      | ListSerializer ch ae hp p \<Rightarrow> BaseFormSerializer_run_validation self_to_internal_value root_partial f data w
      | _ \<Rightarrow> Field_run_validation self_to_internal_value root_partial f data w)"

text \<open>\<^verbatim>\<open>run_validation\<close> and \<^verbatim>\<open>to_internal_value\<close> of a field of any class.  A serializer goes
  through \<^verbatim>\<open>self.fields\<close>, the copies of the fields its class declares.\<close>

function run_validation :: "getattr \<Rightarrow> bool \<Rightarrow> 'w field \<Rightarrow> pyval \<Rightarrow> 'w \<Rightarrow> (exn + pyval) \<times> 'w"
and to_internal_value :: "getattr \<Rightarrow> bool \<Rightarrow> 'w field \<Rightarrow> pyval \<Rightarrow> 'w \<Rightarrow> (exn + pyval) \<times> 'w"
where
  "run_validation getattr root_partial f data w =
     resolve_run_validation (to_internal_value getattr root_partial f) root_partial f data w"
| "to_internal_value getattr root_partial f data w =
     (case kind f of
        BooleanField \<Rightarrow> (BooleanField_to_internal_value f data, w)
      | NullBooleanField \<Rightarrow> (NullBooleanField_to_internal_value f data, w)
      | CharField ab tw \<Rightarrow> (CharField_to_internal_value f data, w)
      | IntegerField \<Rightarrow> (IntegerField_to_internal_value f data, w)
      | ChoiceField cs ab \<Rightarrow> (ChoiceField_to_internal_value f data, w)
      | UnvalidatedField \<Rightarrow> (Inr data, w)
      | ListField ch ae \<Rightarrow> ListField_to_internal_value (run_validation getattr root_partial ch) f data w
      | SerializerMethodField m \<Rightarrow>
          (case m of None \<Rightarrow> (Inl (AttributeError ''method_name''), w) | Some h \<Rightarrow> h data w)
      | Serializer fs cf c p \<Rightarrow>
          fields_loop getattr (run_validation getattr root_partial) cf (fields fs) data [] [] w
      | ListSerializer ch ae hp p \<Rightarrow>
          ListSerializer_to_internal_value (run_validation getattr root_partial ch) f data w)"
  by pat_completeness auto

termination
proof (relation "measure (\<lambda>x. case x of
          Inl (ga, rp, f, d, w) \<Rightarrow> 2 * size f + 1
        | Inr (ga, rp, f, d, w) \<Rightarrow> 2 * size f)")
  show "wf (measure (\<lambda>x. case x of
          Inl (ga, rp, f, d, w) \<Rightarrow> 2 * size f + 1
        | Inr (ga, rp, f, d, w) \<Rightarrow> 2 * size (f :: 'w field)))"
    by simp
next
  fix getattr :: getattr and root_partial :: bool and f :: "'w field" and data x :: pyval and w y :: 'w
  show "(Inr (getattr, root_partial, f, x, y), Inl (getattr, root_partial, f, data, w))
        \<in> measure (\<lambda>x. case x of Inl (ga, rp, f, d, w) \<Rightarrow> 2 * size f + 1 | Inr (ga, rp, f, d, w) \<Rightarrow> 2 * size f)"
    by simp
next
  fix getattr :: getattr and root_partial :: bool and f :: "'w field" and data x :: pyval and w y :: 'w and ch ae
  assume "kind f = ListField ch ae"
  then have "size ch < size f" by (cases f) simp
  then show "(Inl (getattr, root_partial, ch, x, y), Inr (getattr, root_partial, f, data, w))
        \<in> measure (\<lambda>x. case x of Inl (ga, rp, f, d, w) \<Rightarrow> 2 * size f + 1 | Inr (ga, rp, f, d, w) \<Rightarrow> 2 * size f)"
    by simp
next
  fix getattr :: getattr and root_partial :: bool and f :: "'w field" and data x :: pyval and w y :: 'w
    and fs cf c p n fld
  assume "kind f = Serializer fs cf c p" and "(n, fld) \<in> set (fields fs)"
  then have "size fld < size f" using size_field_in_copies[of n fld fs] by (cases f) simp
  then show "(Inl (getattr, root_partial, fld, x, y), Inr (getattr, root_partial, f, data, w))
        \<in> measure (\<lambda>x. case x of Inl (ga, rp, f, d, w) \<Rightarrow> 2 * size f + 1 | Inr (ga, rp, f, d, w) \<Rightarrow> 2 * size f)"
    by simp
next
  fix getattr :: getattr and root_partial :: bool and f :: "'w field" and data x :: pyval and w y :: 'w
    and ch ae hp p
  assume "kind f = ListSerializer ch ae hp p"
  then have "size ch < size f" by (cases f) simp
  then show "(Inl (getattr, root_partial, ch, x, y), Inr (getattr, root_partial, f, data, w))
        \<in> measure (\<lambda>x. case x of Inl (ga, rp, f, d, w) \<Rightarrow> 2 * size f + 1 | Inr (ga, rp, f, d, w) \<Rightarrow> 2 * size f)"
    by simp
qed

declare run_validation.simps [simp del] to_internal_value.simps [simp del]

subsection \<open>\<^verbatim>\<open>is_valid\<close>\<close>

text \<open>
  A serializer object keeps \<^verbatim>\<open>_validated_data\<close> and \<^verbatim>\<open>_errors\<close> once \<^verbatim>\<open>is_valid\<close> has run;
  \<open>None\<close> is the object that has neither attribute yet.  \<^verbatim>\<open>is_valid\<close> is called on a
  serializer that is bound to no parent: its root is itself.  The result is what the call
  returns or raises, the attributes it leaves, and the state.
\<close>

type_synonym validated = "(pyval \<times> details option) option"

definition errors_truthy :: "details option \<Rightarrow> bool" where
  "errors_truthy errs = (case errs of None \<Rightarrow> False | Some d \<Rightarrow> truthy_details d)"

text \<open>The first statement of both \<^verbatim>\<open>is_valid\<close> methods; \<open>no_data\<close> is the value stored as
  \<^verbatim>\<open>_validated_data\<close> when validation fails (\<^verbatim>\<open>{}\<close> or \<^verbatim>\<open>[]\<close>).\<close>

definition validate_once ::
  "getattr \<Rightarrow> pyval \<Rightarrow> 'w field \<Rightarrow> pyval \<Rightarrow> validated \<Rightarrow> 'w \<Rightarrow> (exn + pyval \<times> details option) \<times> 'w" where
  "validate_once getattr no_data s request_data attrs w =
     (case attrs of
        Some a \<Rightarrow> (Inr a, w)
      | None \<Rightarrow>
          (case run_validation getattr (partial (kind s)) s request_data w of
             (Inr v, w') \<Rightarrow> (Inr (v, None), w')
           | (Inl e, w') \<Rightarrow>
               (case e of
                  ValidationError d \<Rightarrow> (Inr (no_data, Some d), w')
                | _ \<Rightarrow> (Inl e, w'))))"

text \<open>\<^verbatim>\<open>BaseFormSerializer.is_valid(self, raise_exc=False)\<close>.\<close>

definition is_valid :: "getattr \<Rightarrow> 'w field \<Rightarrow> pyval \<Rightarrow> validated \<Rightarrow> bool \<Rightarrow> 'w \<Rightarrow> ((exn + bool) \<times> validated) \<times> 'w" where
  "is_valid getattr s request_data attrs raise_exc w =
     (case validate_once getattr (PDict []) s request_data attrs w of
        (Inl e, w') \<Rightarrow> ((Inl e, attrs), w')
      | (Inr (validated_data, errs), w') \<Rightarrow>
          if errors_truthy errs \<and> raise_exc
          then ((Inl (ValidationError (the errs)), Some (validated_data, errs)), w')
          else ((Inr (\<not> errors_truthy errs), Some (validated_data, errs)), w'))"

text \<open>\<^verbatim>\<open>ListSerializer.is_valid(self, raise_exception=False)\<close>.  Its condition is
  \<^verbatim>\<open>self._errors and raise_exc\<close>, and no name \<^verbatim>\<open>raise_exc\<close> is bound in the method or in the
  module: when \<^verbatim>\<open>self._errors\<close> is true, evaluating the name raises \<^verbatim>\<open>NameError\<close>; when it is
  not, \<^verbatim>\<open>and\<close> does not evaluate the name.\<close>

definition ListSerializer_is_valid ::
  "getattr \<Rightarrow> 'w field \<Rightarrow> pyval \<Rightarrow> validated \<Rightarrow> bool \<Rightarrow> 'w \<Rightarrow> ((exn + bool) \<times> validated) \<times> 'w" where
  "ListSerializer_is_valid getattr s request_data attrs raise_exception w =
     (case validate_once getattr (PList []) s request_data attrs w of
        (Inl e, w') \<Rightarrow> ((Inl e, attrs), w')
      | (Inr (validated_data, errs), w') \<Rightarrow>
          if errors_truthy errs then ((Inl (NameError ''raise_exc''), Some (validated_data, errs)), w')
          else ((Inr (\<not> errors_truthy errs), Some (validated_data, errs)), w'))"

section \<open>Notions the claims are stated with\<close>

text \<open>The number a string of decimal digits denotes.\<close>

definition nat_of_digits :: "string \<Rightarrow> nat" where
  "nat_of_digits ds = foldl (\<lambda>a c. 10 * a + digit_val c) 0 ds"

text \<open>The template \<^verbatim>\<open>Field.fail\<close> formats for a key, and the text of a template that has no
  replacement field.\<close>

definition message_template :: "'w field \<Rightarrow> string \<Rightarrow> template" where
  "message_template f key = (case error_messages f key of None \<Rightarrow> [Lit ''Invalid Argument''] | Some t \<Rightarrow> t)"

fun plain_text :: "template \<Rightarrow> string option" where
  "plain_text [] = Some []"
| "plain_text (Lit s # ps) = map_option (\<lambda>r. s @ r) (plain_text ps)"
| "plain_text (Hole n # ps) = None"

subsection \<open>Example fields\<close>

text \<open>An attribute table for the examples: the numeric attributes of an \<^verbatim>\<open>int\<close>, and no other
  attribute.  No example reads an attribute.\<close>

definition int_attributes :: getattr where
  "int_attributes v name =
     (case v of
        PInt i \<Rightarrow>
          if name = ''real'' \<or> name = ''numerator'' then PInt i
          else if name = ''imag'' then PInt 0
          else if name = ''denominator'' then PInt 1
          else Empty
      | _ \<Rightarrow> Empty)"

text \<open>\<^verbatim>\<open>IntegerField()\<close> and \<^verbatim>\<open>IntegerField(error_messages={'invalid': 'bad {value}'})\<close>, under
  a name, in a program whose callables have no state; the choices
  \<^verbatim>\<open>{1: 'First', 2: 'Second'}\<close>.\<close>

definition int_field :: "unit field" where
  "int_field = IntegerField_init False False (DefaultValue Empty) ''n'' [] [] None None"

definition custom_message_field :: "unit field" where
  "custom_message_field =
     IntegerField_init False False (DefaultValue Empty) ''n'' [] [(''invalid'', [Lit ''bad '', Hole ''value''])] None None"

definition two_choices :: "choice list" where
  "two_choices = dict_choices [(PInt 1, PStr ''First''), (PInt 2, PStr ''Second'')]"

subsection \<open>Validation of a value that is present\<close>

text \<open>What \<^verbatim>\<open>run_validation\<close> does once \<^verbatim>\<open>validate_empty_values\<close> has answered that the value
  is not an empty one: \<^verbatim>\<open>to_internal_value\<close>, then the validators, then (for a serializer)
  \<^verbatim>\<open>clean\<close>.\<close>

definition convert_and_validate :: "getattr \<Rightarrow> bool \<Rightarrow> 'w field \<Rightarrow> pyval \<Rightarrow> 'w \<Rightarrow> (exn + pyval) \<times> 'w" where
  "convert_and_validate getattr root_partial f data w =
     (case to_internal_value getattr root_partial f data w of
        (Inl e, w2) \<Rightarrow> (Inl e, w2)
      | (Inr v, w2) \<Rightarrow>
          (case run_validators f v w2 of
             (Inl e, w3) \<Rightarrow> (Inl e, w3)
           | (Inr u, w3) \<Rightarrow> self_clean f v w3))"

subsection \<open>What each step of a loop gives\<close>

text \<open>The result of every validator of a list on one value, in order, each validator
  starting in the state the one before it left; and the state after the last.\<close>

fun validator_results :: "'w validator list \<Rightarrow> pyval \<Rightarrow> 'w \<Rightarrow> (exn + unit) list" where
  "validator_results [] v w = []"
| "validator_results (validator # vs) v w = fst (validator v w) # validator_results vs v (snd (validator v w))"

fun validators_state :: "'w validator list \<Rightarrow> pyval \<Rightarrow> 'w \<Rightarrow> 'w" where
  "validators_state [] v w = w"
| "validators_state (validator # vs) v w = validators_state vs v (snd (validator v w))"

text \<open>The same for the items of a list under a child's \<^verbatim>\<open>run_validation\<close>.\<close>

fun item_results :: "(pyval \<Rightarrow> 'w \<Rightarrow> (exn + pyval) \<times> 'w) \<Rightarrow> pyval list \<Rightarrow> 'w \<Rightarrow> (exn + pyval) list" where
  "item_results child_run_validation [] w = []"
| "item_results child_run_validation (item # items) w =
     fst (child_run_validation item w) # item_results child_run_validation items (snd (child_run_validation item w))"

fun items_state :: "(pyval \<Rightarrow> 'w \<Rightarrow> (exn + pyval) \<times> 'w) \<Rightarrow> pyval list \<Rightarrow> 'w \<Rightarrow> 'w" where
  "items_state child_run_validation [] w = w"
| "items_state child_run_validation (item # items) w =
     items_state child_run_validation items (snd (child_run_validation item w))"

text \<open>The same for the fields of a serializer: the result of the body of the loop's
  \<^verbatim>\<open>try\<close> (\<^verbatim>\<open>field.run_validation\<close>, then the \<^verbatim>\<open>clean_<field_name>\<close> method).\<close>

fun field_results ::
  "getattr \<Rightarrow> bool \<Rightarrow> (string \<Rightarrow> 'w hook option) \<Rightarrow> (string \<times> 'w field) list \<Rightarrow> pyval \<Rightarrow> 'w \<Rightarrow> (exn + pyval) list" where
  "field_results getattr rp cf [] data w = []"
| "field_results getattr rp cf ((n, fld) # fs) data w =
     fst (validate_method (cf n) (run_validation getattr rp fld (get_value getattr n data) w))
       # field_results getattr rp cf fs data (snd (validate_method (cf n) (run_validation getattr rp fld (get_value getattr n data) w)))"

fun fields_state ::
  "getattr \<Rightarrow> bool \<Rightarrow> (string \<Rightarrow> 'w hook option) \<Rightarrow> (string \<times> 'w field) list \<Rightarrow> pyval \<Rightarrow> 'w \<Rightarrow> 'w" where
  "fields_state getattr rp cf [] data w = w"
| "fields_state getattr rp cf ((n, fld) # fs) data w =
     fields_state getattr rp cf fs data (snd (validate_method (cf n) (run_validation getattr rp fld (get_value getattr n data) w)))"

text \<open>A result that is a value or a validation failure; the messages of the failures of a
  list of results, alone and with their positions; its values.\<close>

fun passed_or_failed :: "exn + 'a \<Rightarrow> bool" where
  "passed_or_failed (Inr u) = True"
| "passed_or_failed (Inl (ValidationError d)) = True"
| "passed_or_failed (Inl e) = False"

fun failure_messages :: "(exn + 'a) list \<Rightarrow> details list" where
  "failure_messages [] = []"
| "failure_messages (Inl (ValidationError d) # rs) = d # failure_messages rs"
| "failure_messages (r # rs) = failure_messages rs"

fun indexed_failures :: "nat \<Rightarrow> (exn + 'a) list \<Rightarrow> (ekey \<times> details) list" where
  "indexed_failures i [] = []"
| "indexed_failures i (Inl (ValidationError d) # rs) = (Index i, d) # indexed_failures (Suc i) rs"
| "indexed_failures i (r # rs) = indexed_failures (Suc i) rs"

fun values_of :: "(exn + 'a) list \<Rightarrow> 'a list" where
  "values_of [] = []"
| "values_of (Inr v # rs) = v # values_of rs"
| "values_of (r # rs) = values_of rs"

text \<open>For the fields of a serializer: a result that is a value, a validation failure or
  the skip signal; the failures under the names of their fields; the values with the
  source paths of their fields; and the tree that writing these values in order leaves.\<close>

fun value_failure_or_skip :: "exn + pyval \<Rightarrow> bool" where
  "value_failure_or_skip (Inr v) = True"
| "value_failure_or_skip (Inl (ValidationError d)) = True"
| "value_failure_or_skip (Inl SkipFieldException) = True"
| "value_failure_or_skip (Inl e) = False"

fun recorded_errors :: "(string \<times> 'w field) list \<Rightarrow> (exn + pyval) list \<Rightarrow> (ekey \<times> details) list" where
  "recorded_errors ((n, fld) # fs) (Inl (ValidationError d) # rs) = (Name n, d) # recorded_errors fs rs"
| "recorded_errors (nf # fs) (r # rs) = recorded_errors fs rs"
| "recorded_errors fs rs = []"

fun written_values :: "(string \<times> 'w field) list \<Rightarrow> (exn + pyval) list \<Rightarrow> (string list \<times> pyval) list" where
  "written_values ((n, fld) # fs) (Inr v # rs) = (source_attrs fld, v) # written_values fs rs"
| "written_values (nf # fs) (r # rs) = written_values fs rs"
| "written_values fs rs = []"

fun assemble :: "(pyval \<times> pyval) list \<Rightarrow> (string list \<times> pyval) list \<Rightarrow> exn + (pyval \<times> pyval) list" where
  "assemble ret [] = Inr ret"
| "assemble ret ((keys, v) # kvs) =
     (case set_value ret keys v of Inl e \<Rightarrow> Inl e | Inr ret' \<Rightarrow> assemble ret' kvs)"

subsection \<open>Example schemas\<close>

text \<open>A validator and a method that count their calls, and a validator that counts its call
  and fails with a message.  A serializer without \<^verbatim>\<open>clean_<field_name>\<close> methods and with
  the inherited \<^verbatim>\<open>clean\<close>.  A serializer that is bound to no parent has no source; the
  empty string stands for it.\<close>

definition counting_validator :: "nat validator" where
  "counting_validator v w = (Inr (), Suc w)"

definition failing_validator :: "string \<Rightarrow> nat validator" where
  "failing_validator msg v w = (Inl (ValidationError (Message msg)), Suc w)"

definition counting_method :: "nat hook" where
  "counting_method v w = (Inr (PStr ''computed''), Suc w)"

definition no_hooks :: "string \<Rightarrow> 'w hook option" where
  "no_hooks n = None"

definition inherited_clean :: "'w hook" where
  "inherited_clean v w = (Inr v, w)"

text \<open>\<^verbatim>\<open>SerializerMethodField(allow_null=True, validators=[...])\<close>, whose source is always
  \<^verbatim>\<open>'*'\<close>; \<^verbatim>\<open>IntegerField(allow_null=True, ...)\<close> and \<^verbatim>\<open>IntegerField(required=True, ...)\<close>.\<close>

definition method_field :: "nat field" where
  "method_field = Field False True (DefaultValue Empty) ''*'' [counting_validator] []
     (SerializerMethodField (Some counting_method))"

definition nullable_int_field :: "nat field" where
  "nullable_int_field = IntegerField_init False True (DefaultValue Empty) ''n'' [counting_validator] [] None None"

definition required_int_field :: "nat field" where
  "required_int_field = IntegerField_init True False (DefaultValue Empty) ''n'' [counting_validator] [] None None"

text \<open>\<^verbatim>\<open>CharField(required=True, min_length=5, validators=[...])\<close> with and without
  \<^verbatim>\<open>allow_blank=True\<close>.\<close>

definition blank_ok_field :: "nat field" where
  "blank_ok_field = CharField_init True False (DefaultValue Empty) ''s'' [counting_validator] [] True True None (Some 5)"

definition no_blank_field :: "nat field" where
  "no_blank_field = CharField_init True False (DefaultValue Empty) ''s'' [counting_validator] [] False True None (Some 5)"

definition three_validators :: "nat field" where
  "three_validators = Field False False (DefaultValue Empty) ''x''
     [failing_validator ''too short'', counting_validator, failing_validator ''not a word''] [] UnvalidatedField"

text \<open>\<^verbatim>\<open>CharField(required=True, min_length=5, validators=[...])\<close>, whose own validator fails
  with a message, and \<^verbatim>\<open>CharField(required=True, validators=[MinLengthValidator(5), ...])\<close>,
  whose own validator counts its calls.\<close>

definition short_name_field :: "nat field" where
  "short_name_field = CharField_init True False (DefaultValue Empty) ''name''
     [failing_validator ''not a word''] [] False True None (Some 5)"

definition limit_first_field :: "nat field" where
  "limit_first_field = CharField_init True False (DefaultValue Empty) ''name''
     [MinLengthValidator 5, counting_validator] [] False True None None"

text \<open>A serializer with the fields \<^verbatim>\<open>name = CharField(required=True, min_length=5)\<close> and
  \<^verbatim>\<open>age = IntegerField(required=True, validators=[...])\<close>.\<close>

definition signup_fields :: "(string \<times> nat field) list" where
  "signup_fields =
     [(''name'', CharField_init True False (DefaultValue Empty) ''name'' [] [] False True None (Some 5)),
      (''age'', IntegerField_init True False (DefaultValue Empty) ''age'' [counting_validator] [] None None)]"

definition signup_schema :: "nat field" where
  "signup_schema = Field False False (DefaultValue Empty) [] [] []
     (Serializer signup_fields no_hooks inherited_clean False)"

text \<open>A serializer with the fields \<^verbatim>\<open>a = IntegerField(required=True)\<close>,
  \<^verbatim>\<open>b = CharField(required=True)\<close> and three optional integer fields, each with the
  counting validator, and two inputs.\<close>

definition five_fields :: "(string \<times> nat field) list" where
  "five_fields =
     [(''a'', IntegerField_init True False (DefaultValue Empty) ''a'' [counting_validator] [] None None),
      (''b'', CharField_init True False (DefaultValue Empty) ''b'' [counting_validator] [] False True None None),
      (''c'', IntegerField_init False False (DefaultValue Empty) ''c'' [counting_validator] [] None None),
      (''d'', IntegerField_init False False (DefaultValue Empty) ''d'' [counting_validator] [] None None),
      (''e'', IntegerField_init False False (DefaultValue Empty) ''e'' [counting_validator] [] None None)]"

definition five_schema :: "nat field" where
  "five_schema = Field False False (DefaultValue Empty) [] [] [] (Serializer five_fields no_hooks inherited_clean False)"

definition five_input :: pyval where
  "five_input = PDict [(PStr ''a'', PStr ''1''), (PStr ''d'', PStr ''x''), (PStr ''e'', PInt 5)]"

definition good_input :: pyval where
  "good_input = PDict [(PStr ''a'', PStr ''1''), (PStr ''b'', PStr ''x'')]"

text \<open>The schema of the partial-mode example: \<^verbatim>\<open>name = CharField(required=True)\<close>,
  \<^verbatim>\<open>age = IntegerField(required=True)\<close>, instantiated with \<^verbatim>\<open>partial=True\<close>.\<close>

definition age_field :: "unit field" where
  "age_field = IntegerField_init True False (DefaultValue Empty) ''age'' [] [] None None"

definition name_age_fields :: "(string \<times> unit field) list" where
  "name_age_fields =
     [(''name'', CharField_init True False (DefaultValue Empty) ''name'' [] [] False True None None),
      (''age'', age_field)]"

definition partial_schema :: "unit field" where
  "partial_schema = Field False False (DefaultValue Empty) [] [] []
     (Serializer name_age_fields no_hooks inherited_clean True)"

text \<open>\<^verbatim>\<open>ListField(child=IntegerField(validators=[...]))\<close>, whose child is bound under the
  empty name; a serializer with the one field \<^verbatim>\<open>n = IntegerField(required=True)\<close>, and the
  \<^verbatim>\<open>ListSerializer\<close> that instantiating it with \<^verbatim>\<open>many=True\<close> gives.\<close>

definition int_list_field :: "nat field" where
  "int_list_field = Field False False (DefaultValue Empty) ''xs'' [] []
     (ListField (IntegerField_init False False (DefaultValue Empty) [] [counting_validator] [] None None) True)"

definition item_schema :: "nat field" where
  "item_schema = Field False False (DefaultValue Empty) [] [] []
     (Serializer [(''n'', IntegerField_init True False (DefaultValue Empty) ''n'' [counting_validator] [] None None)]
        no_hooks inherited_clean False)"

definition item_list_serializer :: "nat field" where
  "item_list_serializer = Field False False (DefaultValue Empty) [] [] [] (ListSerializer item_schema True False False)"

section \<open>Evaluation\<close>

text \<open>The equations that evaluate a validation on a concrete input.\<close>

lemmas eval_defs =
  run_validation.simps resolve_run_validation_def Field_run_validation_def CharField_run_validation_def
  BaseFormSerializer_run_validation_def validate_empty_values_def get_default_def to_internal_value.simps
  ListField_to_internal_value_def ListSerializer_to_internal_value_def
  IntegerField_to_internal_value_def CharField_to_internal_value_def run_validators_def validate_method_def
  get_value_def source_attrs_def IntegerField_init_def CharField_init_def fail_def error_messages_def
  Field_messages_def str_def strip_def lstrip_def rstrip_def is_space_def MAX_STRING_LENGTH_def
  zeros_then_spaces_def int_of_str_def int_space_def int_literal_def is_digit_def digit_val_def
  str_of_int_def str_of_nat.simps digit_char_def char_of_def bit_iff_odd self_clean_def fields_def
  sentinel_copy_def

lemma odict_set_new: "k \<notin> fst ` set d \<Longrightarrow> odict_set d k v = d @ [(k, v)]"
  by (induction d) auto

section \<open>Integers and their decimal strings\<close>

lemma int_digits_all_digits:
  "list_all is_digit ds \<Longrightarrow> int_digits acc ds = Some (foldl (\<lambda>a c. 10 * a + digit_val c) acc ds)"
  by (induction ds arbitrary: acc) auto

lemma int_literal_digits:
  "ds \<noteq> [] \<Longrightarrow> list_all is_digit ds \<Longrightarrow> int_literal ds = Some (nat_of_digits ds)"
  by (cases ds) (auto simp: int_literal_def nat_of_digits_def int_digits_all_digits)

lemma digit_not_int_space: "is_digit c \<Longrightarrow> \<not> int_space c"
  by (auto simp: is_digit_def int_space_def Let_def)

lemma digit_not_space: "is_digit c \<Longrightarrow> \<not> is_space c"
  by (auto simp: is_digit_def is_space_def Let_def)

lemma digit_not_sign: "is_digit c \<Longrightarrow> c \<noteq> CHR ''-'' \<and> c \<noteq> CHR ''+''"
  by (auto simp: is_digit_def)

lemma digits_no_dot: "list_all is_digit ds \<Longrightarrow> CHR ''.'' \<notin> set ds"
  by (auto simp: list_all_iff is_digit_def)

lemma int_strip_digits:
  assumes "ds \<noteq> []" "list_all is_digit ds"
  shows "rev (dropWhile int_space (rev (dropWhile int_space ds))) = ds"
proof -
  have h: "\<not> int_space (hd ds)" using assms by (cases ds) (auto simp: digit_not_int_space)
  have l: "\<not> int_space (last ds)" using assms by (auto simp: list_all_iff digit_not_int_space)
  have 1: "dropWhile int_space ds = ds" using h assms(1) by (cases ds) auto
  have 2: "dropWhile int_space (rev ds) = rev ds" using l assms(1) by (cases "rev ds") (auto simp: last_rev hd_rev)
  show ?thesis by (simp add: 1 2)
qed

lemma int_of_str_digits:
  assumes "ds \<noteq> []" "list_all is_digit ds"
  shows "int_of_str ds = Some (int (nat_of_digits ds))"
proof -
  obtain c cs where ds: "ds = c # cs" using assms(1) by (cases ds) auto
  have "is_digit c" using assms(2) ds by simp
  then have "c \<noteq> CHR ''-''" "c \<noteq> CHR ''+''" using digit_not_sign by auto
  then show ?thesis
    unfolding int_of_str_def int_strip_digits[OF assms]
    using int_literal_digits[OF assms] by (simp add: ds)
qed

lemma digit_char_is_digit: "d < 10 \<Longrightarrow> is_digit (digit_char d)"
  by (simp add: is_digit_def digit_char_def Let_def)

lemma digit_val_digit_char: "d < 10 \<Longrightarrow> digit_val (digit_char d) = d"
  by (simp add: digit_val_def digit_char_def)

lemma str_of_nat_digits: "list_all is_digit (str_of_nat n) \<and> str_of_nat n \<noteq> []"
proof (induction n rule: str_of_nat.induct)
  case (1 n)
  show ?case
  proof (cases "n < 10")
    case True
    then show ?thesis by (subst str_of_nat.simps, subst (2) str_of_nat.simps) (simp add: digit_char_is_digit)
  next
    case False
    then show ?thesis using 1 by (subst str_of_nat.simps, subst (2) str_of_nat.simps) (simp add: digit_char_is_digit)
  qed
qed

lemma nat_of_digits_str_of_nat: "nat_of_digits (str_of_nat n) = n"
proof (induction n rule: str_of_nat.induct)
  case (1 n)
  show ?case
  proof (cases "n < 10")
    case True
    then show ?thesis by (subst str_of_nat.simps) (simp add: nat_of_digits_def digit_val_digit_char)
  next
    case False
    then have "nat_of_digits (str_of_nat (n div 10)) = n div 10" using 1 by simp
    then show ?thesis using False
      by (subst str_of_nat.simps) (simp add: nat_of_digits_def digit_val_digit_char)
  qed
qed

text \<open>\<^verbatim>\<open>int(str(i)) == i\<close>.\<close>

lemma int_of_str_str_of_int: "int_of_str (str_of_int i) = Some i"
proof (cases "i < 0")
  case True
  let ?ds = "str_of_nat (nat (- i))"
  have d: "list_all is_digit ?ds" "?ds \<noteq> []" using str_of_nat_digits by auto
  have h: "\<not> int_space (last ?ds)" using d by (auto simp: list_all_iff digit_not_int_space)
  have 2: "dropWhile int_space (rev ?ds) = rev ?ds" using h d(2) by (cases "rev ?ds") (auto simp: last_rev hd_rev)
  have m: "\<not> int_space CHR ''-''" by (simp add: int_space_def)
  have "rev (dropWhile int_space (rev (dropWhile int_space (CHR ''-'' # ?ds)))) = CHR ''-'' # ?ds"
    using m 2 d(2) h last_in_set[OF d(2)] by (auto simp: dropWhile_append)
  then show ?thesis using True int_literal_digits[OF d(2) d(1)]
    by (simp add: int_of_str_def str_of_int_def nat_of_digits_str_of_nat)
next
  case False
  let ?ds = "str_of_nat (nat i)"
  have d: "?ds \<noteq> []" "list_all is_digit ?ds" using str_of_nat_digits by auto
  show ?thesis using False int_of_str_digits[OF d] by (simp add: str_of_int_def nat_of_digits_str_of_nat)
qed

lemma re_decimal_sub_no_dot: "CHR ''.'' \<notin> set s \<Longrightarrow> re_decimal_sub s = s"
  by (induction s) auto

lemma re_decimal_sub_at_dot:
  "CHR ''.'' \<notin> set ds \<Longrightarrow>
   re_decimal_sub (ds @ CHR ''.'' # r) = (if zeros_then_spaces r then ds else ds @ CHR ''.'' # re_decimal_sub r)"
  by (induction ds) auto

lemma int_digits_chars:
  "int_digits acc cs = Some r \<Longrightarrow> \<forall>c\<in>set cs. is_digit c \<or> c = CHR ''_''"
  by (induction acc cs rule: int_digits.induct) (auto split: if_splits list.splits)

lemma int_literal_chars:
  "int_literal cs = Some r \<Longrightarrow> \<forall>c\<in>set cs. is_digit c \<or> c = CHR ''_''"
  by (auto simp: int_literal_def split: list.splits if_splits dest: int_digits_chars)

lemma set_strip_parts:
  "set s \<subseteq> {c. P c} \<union> set (rev (dropWhile P (rev (dropWhile P s))))"
proof -
  let ?t = "dropWhile P s"
  have 1: "set s = set (takeWhile P s) \<union> set ?t"
    by (metis set_append takeWhile_dropWhile_id)
  have 2: "set ?t = set (takeWhile P (rev ?t)) \<union> set (dropWhile P (rev ?t))"
    by (metis set_append set_rev takeWhile_dropWhile_id)
  have 3: "set (takeWhile P s) \<subseteq> {c. P c}" "set (takeWhile P (rev ?t)) \<subseteq> {c. P c}"
    by (auto dest: set_takeWhileD)
  show ?thesis using 1 2 3 by auto
qed

text \<open>A string that \<^verbatim>\<open>int()\<close> reads has no dot.\<close>

lemma int_of_str_no_dot:
  assumes "int_of_str s = Some i"
  shows "CHR ''.'' \<notin> set s"
proof
  assume dot: "CHR ''.'' \<in> set s"
  let ?m = "rev (dropWhile int_space (rev (dropWhile int_space s)))"
  have nsp: "\<not> int_space CHR ''.''" by (simp add: int_space_def)
  have ndg: "\<not> is_digit CHR ''.''" by (simp add: is_digit_def)
  have "CHR ''.'' \<in> set ?m" using dot set_strip_parts[of s int_space] nsp by auto
  moreover have "\<forall>c\<in>set ?m. is_digit c \<or> c = CHR ''_'' \<or> c = CHR ''-'' \<or> c = CHR ''+''"
    using assms unfolding int_of_str_def
    by (auto split: list.splits if_splits dest!: int_literal_chars)
  ultimately show False using ndg by auto
qed

lemma zeros_then_spaces_zeros: "list_all (\<lambda>c. c = CHR ''0'') zs \<Longrightarrow> zeros_then_spaces zs"
  by (induction zs) (auto simp: zeros_then_spaces_def)

lemma not_zeros_then_spaces:
  assumes "list_all is_digit fs" "\<not> list_all (\<lambda>c. c = CHR ''0'') fs"
  shows "\<not> zeros_then_spaces fs"
  using assms by (induction fs) (auto simp: zeros_then_spaces_def digit_not_space)

section \<open>The integer field and decimal strings\<close>

lemma format_plain_text: "plain_text t = Some msg \<Longrightarrow> format t kwargs = Inr msg"
  by (induction t arbitrary: msg rule: plain_text.induct) auto

text \<open>With a message that has no replacement field, \<^verbatim>\<open>Field.fail\<close> raises the
  \<^verbatim>\<open>ValidationError\<close> of that message.\<close>

lemma fail_plain_text:
  "plain_text (message_template f key) = Some msg \<Longrightarrow> fail f key kwargs = ValidationError (Message msg)"
  by (simp add: fail_def message_template_def format_plain_text)

lemma IntegerField_too_long:
  assumes "kind f = IntegerField" and "length s > MAX_STRING_LENGTH"
  shows "to_internal_value getattr root_partial f (PStr s) w = (Inl (fail f ''max_string_length'' []), w)"
  using assms by (simp add: to_internal_value.simps IntegerField_to_internal_value_def)

lemma IntegerField_digits_dot_digits:
  assumes "kind f = IntegerField"
    and "ds \<noteq> []" and "list_all is_digit ds" and "list_all is_digit fs"
    and "length (ds @ CHR ''.'' # fs) \<le> MAX_STRING_LENGTH"
  shows "to_internal_value getattr root_partial f (PStr (ds @ CHR ''.'' # fs)) w =
           (if list_all (\<lambda>c. c = CHR ''0'') fs then Inr (PInt (int (nat_of_digits ds)))
            else Inl (fail f ''invalid'' []), w)"
proof (cases "list_all (\<lambda>c. c = CHR ''0'') fs")
  case True
  have "re_decimal_sub (ds @ CHR ''.'' # fs) = ds"
    using re_decimal_sub_at_dot[OF digits_no_dot[OF assms(3)]] zeros_then_spaces_zeros[OF True] by simp
  then show ?thesis
    using True assms(1,5) int_of_str_digits[OF assms(2,3)]
    by (simp add: to_internal_value.simps IntegerField_to_internal_value_def str_def)
next
  case False
  have "re_decimal_sub (ds @ CHR ''.'' # fs) = ds @ CHR ''.'' # fs"
    using re_decimal_sub_at_dot[OF digits_no_dot[OF assms(3)], of fs]
      not_zeros_then_spaces[OF assms(4) False] re_decimal_sub_no_dot[OF digits_no_dot[OF assms(4)]]
    by simp
  moreover have "int_of_str (ds @ CHR ''.'' # fs) = None"
    using int_of_str_no_dot[of "ds @ CHR ''.'' # fs"] by (cases "int_of_str (ds @ CHR ''.'' # fs)") auto
  ultimately show ?thesis
    using False assms(1,5)
    by (simp add: to_internal_value.simps IntegerField_to_internal_value_def str_def)
qed

text \<open>
  Claim C9, as amended.  For an integer field whose messages for \<^verbatim>\<open>invalid\<close> and
  \<^verbatim>\<open>max_string_length\<close> have no replacement field (the default messages have none):
  \<^verbatim>\<open>to_internal_value\<close> cuts a trailing \<^verbatim>\<open>.0\<close>-style suffix off before it parses a string of at
  most \<^verbatim>\<open>MAX_STRING_LENGTH\<close> (1000) characters.  Such a string that consists of one or more
  digits, a dot and zero or more zeros converts to the integer the digits before the dot
  denote; such a string whose digits after the dot are not all zeros fails with the
  \<^verbatim>\<open>ValidationError\<close> of the message for \<^verbatim>\<open>invalid\<close>, not with a \<^verbatim>\<open>ValueError\<close> or \<^verbatim>\<open>TypeError\<close>.  Every
  string of more than 1000 characters, whatever it consists of, fails with the
  \<^verbatim>\<open>ValidationError\<close> of the message for \<^verbatim>\<open>max_string_length\<close>.  The state is not touched.
\<close>

theorem IntegerField_decimal_suffix:
  assumes "kind f = IntegerField"
    and "plain_text (message_template f ''invalid'') = Some invalid"
    and "plain_text (message_template f ''max_string_length'') = Some too_long"
  shows "(ds \<noteq> [] \<and> list_all is_digit ds \<and> list_all is_digit fs \<and>
          length (ds @ CHR ''.'' # fs) \<le> MAX_STRING_LENGTH \<longrightarrow>
            to_internal_value getattr root_partial f (PStr (ds @ CHR ''.'' # fs)) w =
              (if list_all (\<lambda>c. c = CHR ''0'') fs then Inr (PInt (int (nat_of_digits ds)))
               else Inl (ValidationError (Message invalid)), w)) \<and>
         (length s > MAX_STRING_LENGTH \<longrightarrow>
            to_internal_value getattr root_partial f (PStr s) w = (Inl (ValidationError (Message too_long)), w))"
  using IntegerField_digits_dot_digits[of f ds fs getattr root_partial w]
    IntegerField_too_long[of f s getattr root_partial w]
    fail_plain_text[OF assms(2), of "[]"] fail_plain_text[OF assms(3), of "[]"] assms(1)
  by simp

text \<open>The theorem at \<^verbatim>\<open>IntegerField()\<close>, with its default messages, on \<^verbatim>\<open>"12.00"\<close>, on \<^verbatim>\<open>"1.2"\<close>
  and on a string of 1001 letters.\<close>

theorem IntegerField_decimal_suffix_witness:
  "to_internal_value int_attributes False int_field (PStr ''12.00'') () = (Inr (PInt 12), ()) \<and>
   to_internal_value int_attributes False int_field (PStr ''1.2'') () =
     (Inl (ValidationError (Message ''A valid integer is required.'')), ()) \<and>
   to_internal_value int_attributes False int_field (PStr (replicate 1001 (CHR ''a''))) () =
     (Inl (ValidationError (Message ''String value too large.'')), ())"
proof -
  have k: "kind int_field = IntegerField" by (simp add: int_field_def IntegerField_init_def)
  have i: "plain_text (message_template int_field ''invalid'') = Some ''A valid integer is required.''"
    by (simp add: int_field_def IntegerField_init_def message_template_def error_messages_def)
  have m: "plain_text (message_template int_field ''max_string_length'') = Some ''String value too large.''"
    by (simp add: int_field_def IntegerField_init_def message_template_def error_messages_def)
  show ?thesis
    using IntegerField_decimal_suffix[OF k i m, of "''12''" "''00''" int_attributes False "()" "replicate 1001 (CHR ''a'')"]
      IntegerField_decimal_suffix[OF k i m, of "''1''" "''2''" int_attributes False "()" "replicate 1001 (CHR ''a'')"]
    by (simp add: is_digit_def MAX_STRING_LENGTH_def nat_of_digits_def digit_val_def)
qed

text \<open>The claim as it was stated has no bound on the length and no condition on the
  message.  \<^verbatim>\<open>"1." + "0" * 999\<close> is digits, a dot and zeros, has 1001 characters, and is refused
  as too long.  With \<^verbatim>\<open>error_messages={'invalid': 'bad {value}'}\<close> the string \<^verbatim>\<open>"1.2"\<close> makes
  \<^verbatim>\<open>self.fail('invalid')\<close> format a message that wants a keyword argument it is not given:
  what is raised is a \<^verbatim>\<open>KeyError\<close>, not a validation failure.\<close>

theorem IntegerField_long_decimal_counterexample:
  "to_internal_value int_attributes False int_field (PStr (CHR ''1'' # CHR ''.'' # replicate 999 (CHR ''0''))) () =
     (Inl (ValidationError (Message ''String value too large.'')), ()) \<and>
   to_internal_value int_attributes False custom_message_field (PStr ''1.2'') () = (Inl (KeyError ''value''), ())"
  by (simp add: int_field_def custom_message_field_def IntegerField_init_def to_internal_value.simps
      IntegerField_to_internal_value_def str_def MAX_STRING_LENGTH_def fail_def error_messages_def
      Field_messages_def lookup_field_def is_digit_def zeros_then_spaces_def is_space_def int_of_str_def
      int_space_def int_literal_def digit_val_def)

section \<open>Round trips of the scalar fields\<close>

lemma rstrip_prefix: "t = rev (dropWhile P (rev t)) @ rev (takeWhile P (rev t))"
  by (metis rev_append rev_rev_ident takeWhile_dropWhile_id)

lemma lstrip_rstrip_lstrip:
  "dropWhile P (rev (dropWhile P (rev (dropWhile P s)))) = rev (dropWhile P (rev (dropWhile P s)))"
proof (cases "rev (dropWhile P (rev (dropWhile P s)))")
  case Nil
  show ?thesis by (simp only: Nil dropWhile.simps)
next
  case (Cons c cs)
  let ?t = "dropWhile P s"
  have "?t = (c # cs) @ rev (takeWhile P (rev ?t))" using rstrip_prefix[of ?t P] Cons by simp
  then have "hd ?t = c" "?t \<noteq> []" by (metis append_Cons list.sel(1), metis append_Cons list.distinct(1))
  then have "\<not> P c" using hd_dropWhile[of P s] by auto
  then show ?thesis using Cons by simp
qed

text \<open>Stripping a stripped string changes nothing.\<close>

lemma strip_idem: "strip (strip s) = strip s"
  by (simp add: strip_def lstrip_def rstrip_def lstrip_rstrip_lstrip)

lemma CharField_round_trip:
  assumes "CharField_to_internal_value f x = Inr y"
  shows "CharField_to_representation f y = CharField_to_representation f x"
  using assms
  by (auto simp: CharField_to_internal_value_def CharField_to_representation_def str_def Let_def strip_idem
      split: if_splits pyval.splits)

lemma BooleanField_values_of_results:
  "BooleanField_TRUE_VALUES (PBool True)" "\<not> BooleanField_TRUE_VALUES (PBool False)"
  "BooleanField_FALSE_VALUES (PBool False)" "\<not> BooleanField_TRUE_VALUES PNone"
  "\<not> BooleanField_FALSE_VALUES PNone" "BooleanField_NULL_VALUES PNone"
  by (simp_all add: BooleanField_TRUE_VALUES_def BooleanField_FALSE_VALUES_def BooleanField_NULL_VALUES_def)

lemma BooleanField_round_trip:
  assumes "BooleanField_to_internal_value f x = Inr y"
  shows "BooleanField_to_representation f y = BooleanField_to_representation f x"
proof -
  consider (t) "hashable x" "BooleanField_TRUE_VALUES x" "y = PBool True"
    | (f) "hashable x" "\<not> BooleanField_TRUE_VALUES x" "BooleanField_FALSE_VALUES x" "y = PBool False"
    | (n) "hashable x" "\<not> BooleanField_TRUE_VALUES x" "\<not> BooleanField_FALSE_VALUES x"
          "BooleanField_NULL_VALUES x" "allow_null f" "y = PNone"
    using assms by (auto simp: BooleanField_to_internal_value_def split: if_splits)
  then show ?thesis
    by cases (simp_all add: BooleanField_to_representation_def BooleanField_values_of_results)
qed

lemma NullBooleanField_values_of_results:
  "NullBooleanField_TRUE_VALUES (PBool True)" "\<not> NullBooleanField_TRUE_VALUES (PBool False)"
  "NullBooleanField_FALSE_VALUES (PBool False)" "NullBooleanField_NULL_VALUES PNone"
  "\<not> NullBooleanField_NULL_VALUES (PBool b)"
  by (simp_all add: NullBooleanField_TRUE_VALUES_def NullBooleanField_FALSE_VALUES_def NullBooleanField_NULL_VALUES_def)

lemma NullBooleanField_null_disjoint:
  "NullBooleanField_TRUE_VALUES x \<Longrightarrow> \<not> NullBooleanField_NULL_VALUES x"
  "NullBooleanField_FALSE_VALUES x \<Longrightarrow> \<not> NullBooleanField_NULL_VALUES x"
  by (cases x; simp add: NullBooleanField_TRUE_VALUES_def NullBooleanField_FALSE_VALUES_def NullBooleanField_NULL_VALUES_def; fastforce)+

lemma NullBooleanField_round_trip:
  assumes "NullBooleanField_to_internal_value f x = Inr y"
  shows "NullBooleanField_to_representation f y = NullBooleanField_to_representation f x"
proof -
  consider (t) "hashable x" "NullBooleanField_TRUE_VALUES x" "y = PBool True"
    | (f) "hashable x" "\<not> NullBooleanField_TRUE_VALUES x" "NullBooleanField_FALSE_VALUES x" "y = PBool False"
    | (n) "hashable x" "NullBooleanField_NULL_VALUES x" "y = PNone"
    using assms by (auto simp: NullBooleanField_to_internal_value_def split: if_splits)
  then show ?thesis
    by cases (simp_all add: NullBooleanField_to_representation_def NullBooleanField_values_of_results
        NullBooleanField_null_disjoint)
qed

lemma IntegerField_internal_is_int:
  "IntegerField_to_internal_value f x = Inr y \<Longrightarrow> \<exists>i. y = PInt i"
  by (auto simp: IntegerField_to_internal_value_def split: if_splits option.splits)

lemma str_bool_not_int: "int_of_str (re_decimal_sub (str (PBool b))) = None"
  by (cases b) (simp_all add: str_def int_of_str_def int_space_def int_literal_def is_digit_def)

text \<open>Where \<^verbatim>\<open>IntegerField.to_representation\<close> accepts an input that
  \<^verbatim>\<open>to_internal_value\<close> accepts, the two agree.\<close>

lemma IntegerField_agrees:
  assumes "IntegerField_to_internal_value f x = Inr y" and "IntegerField_to_representation f x = Inr r"
  shows "r = y"
proof (cases x)
  case (PInt i)
  have "CHR ''.'' \<notin> set (str_of_int i)" using int_of_str_no_dot[OF int_of_str_str_of_int] .
  then show ?thesis using assms PInt
    by (auto simp: IntegerField_to_internal_value_def IntegerField_to_representation_def str_def
        re_decimal_sub_no_dot int_of_str_str_of_int)
next
  case (PStr s)
  obtain i where i: "int_of_str s = Some i" "r = PInt i"
    using assms(2) PStr by (auto simp: IntegerField_to_representation_def split: option.splits)
  have "re_decimal_sub s = s" using int_of_str_no_dot[OF i(1)] by (rule re_decimal_sub_no_dot)
  then show ?thesis using assms(1) PStr i
    by (auto simp: IntegerField_to_internal_value_def str_def split: if_splits)
next
  case (PBool b)
  then show ?thesis using assms(1) str_bool_not_int[of b]
    by (simp add: IntegerField_to_internal_value_def)
qed (use assms(2) in \<open>simp_all add: IntegerField_to_representation_def\<close>)

text \<open>
  Claim C1 at the integer field and the input \<^verbatim>\<open>"1.0"\<close>, the example of the claim.
  \<^verbatim>\<open>IntegerField.to_internal_value\<close> accepts \<^verbatim>\<open>"1.0"\<close> and converts it to 1 (the pattern
  \<^verbatim>\<open>re_decimal\<close> is there to \<^verbatim>\<open>allow e.g. '1.0' as an int\<close>), and \<^verbatim>\<open>to_representation(1)\<close> is 1.
  \<^verbatim>\<open>IntegerField.to_representation("1.0")\<close> is \<^verbatim>\<open>int("1.0")\<close>, which raises \<^verbatim>\<open>ValueError\<close>: it is
  not defined on this accepted input, and so not equal to \<^verbatim>\<open>to_representation(1)\<close>.  On the
  string \<^verbatim>\<open>"1"\<close>, which \<^verbatim>\<open>int()\<close> reads, it is.  (The \<^verbatim>\<open>to_representation\<close> of the string field and
  of the two boolean fields is defined on every input their \<^verbatim>\<open>to_internal_value\<close> accepts and
  agrees with it there: the lemmas above.)
\<close>

theorem IntegerField_to_representation_decimal_string:
  "to_internal_value getattr root_partial int_field (PStr ''1.0'') w = (Inr (PInt 1), w) \<and>
   IntegerField_to_representation int_field (PInt 1) = Inr (PInt 1) \<and>
   IntegerField_to_representation int_field (PStr ''1.0'') = Inl ValueError \<and>
   IntegerField_to_representation int_field (PStr ''1'') = Inr (PInt 1)"
  by (simp add: int_field_def IntegerField_init_def to_internal_value.simps IntegerField_to_internal_value_def
      str_def IntegerField_to_representation_def MAX_STRING_LENGTH_def zeros_then_spaces_def is_space_def
      int_of_str_def int_space_def int_literal_def is_digit_def digit_val_def)

section \<open>The choice field\<close>

lemma two_choices_table:
  "choice_strings_to_values two_choices = [(''1'', PInt 1), (''2'', PInt 2)]"
  by (simp add: two_choices_def choice_strings_to_values_def dict_choices_def choices_table_def str_def
      str_of_int_def str_of_nat.simps digit_char_def char_of_def bit_iff_odd)

text \<open>
  Claim C8.  For a choice field declared with the choices \<^verbatim>\<open>{1: "First", 2: "Second"}\<close> (and
  the default messages), \<^verbatim>\<open>to_internal_value\<close> looks the string of the input up in the
  table from strings to keys: the input \<^verbatim>\<open>"2"\<close> resolves to the integer 2; the input
  \<^verbatim>\<open>"9"\<close> fails with what \<^verbatim>\<open>self.fail('invalid_choice', input="9")\<close> raises, a validation
  error whose message is \<^verbatim>\<open>"9" is not a valid choice.\<close> with the input in double quotes.
\<close>

theorem ChoiceField_two_choices:
  "to_internal_value getattr root_partial (Field req an dflt src vs [] (ChoiceField two_choices ab)) (PStr ''2'') w =
     (Inr (PInt 2), w) \<and>
   to_internal_value getattr root_partial (Field req an dflt src vs [] (ChoiceField two_choices ab)) (PStr ''9'') w =
     (Inl (fail (Field req an dflt src vs [] (ChoiceField two_choices ab)) ''invalid_choice'' [(''input'', PStr ''9'')]), w) \<and>
   fail (Field req an dflt src vs [] (ChoiceField two_choices ab)) ''invalid_choice'' [(''input'', PStr ''9'')] =
     ValidationError (Message (CHR 0x22 # ''9'' @ CHR 0x22 # '' is not a valid choice.''))"
  by (simp add: to_internal_value.simps ChoiceField_to_internal_value_def two_choices_table str_def
      fail_def error_messages_def Field_messages_def lookup_field_def is_digit_def)

section \<open>Explicit nulls\<close>

lemma strip_None: "strip (str PNone) \<noteq> []"
  by (simp add: str_def strip_def lstrip_def rstrip_def is_space_def)

lemma validate_empty_values_None:
  "validate_empty_values rp f PNone w =
     (if \<not> allow_null f then (Inl (fail f ''null'' []), w)
      else if source f = ''*'' then (Inr (False, PNone), w)
      else (Inr (True, PNone), w))"
  by (simp add: validate_empty_values_def)

text \<open>A value that is there, is not null and is not blank goes through
  \<open>convert_and_validate\<close>, whatever the class of the field.\<close>

lemma run_validation_present:
  assumes "data \<noteq> Empty" "data \<noteq> PNone"
    and "\<not> (data = PStr [] \<or> strip (str data) = [])"
  shows "run_validation getattr root_partial f data w = convert_and_validate getattr root_partial f data w"
proof -
  have v: "validate_empty_values root_partial f data w = (Inr (False, data), w)"
    using assms by (simp add: validate_empty_values_def)
  have F: "Field_run_validation (to_internal_value getattr root_partial f) root_partial f data w =
      convert_and_validate getattr root_partial f data w" if "case kind f of Serializer fs cf c p \<Rightarrow> False | _ \<Rightarrow> True"
    using that
    by (auto simp: Field_run_validation_def v convert_and_validate_def self_clean_def
        split: prod.splits sum.splits kind.splits)
  have B: "BaseFormSerializer_run_validation (to_internal_value getattr root_partial f) root_partial f data w =
      convert_and_validate getattr root_partial f data w"
    by (auto simp: BaseFormSerializer_run_validation_def v convert_and_validate_def
        split: prod.splits sum.splits)
  show ?thesis using assms(3)
    by (cases "kind f")
      (simp_all add: run_validation.simps resolve_run_validation_def CharField_run_validation_def F B)
qed

text \<open>
  Claim C2, as amended.  Running the validation of a field on an explicit \<^verbatim>\<open>None\<close>:
  when \<^verbatim>\<open>allow_null\<close> is false it fails with what \<^verbatim>\<open>self.fail('null')\<close> raises; when
  \<^verbatim>\<open>allow_null\<close> is true and the source is not the wildcard \<^verbatim>\<open>"*"\<close> it returns \<^verbatim>\<open>None\<close> and
  calls neither \<^verbatim>\<open>to_internal_value\<close> nor a validator (the state is the one it started in);
  when \<^verbatim>\<open>allow_null\<close> is true and the source is the wildcard, \<^verbatim>\<open>None\<close> is not short-circuited:
  it is handed to \<^verbatim>\<open>to_internal_value\<close> and the result to the validators, as a value that is
  present is.
\<close>

theorem run_validation_None:
  "run_validation getattr root_partial f PNone w =
     (if \<not> allow_null f then (Inl (fail f ''null'' []), w)
      else if source f = ''*'' then convert_and_validate getattr root_partial f PNone w
      else (Inr PNone, w))"
proof -
  have F: "Field_run_validation (to_internal_value getattr root_partial f) root_partial f PNone w =
     (if \<not> allow_null f then (Inl (fail f ''null'' []), w)
      else if source f = ''*'' then convert_and_validate getattr root_partial f PNone w
      else (Inr PNone, w))" if "case kind f of Serializer fs cf c p \<Rightarrow> False | _ \<Rightarrow> True"
    using that
    by (auto simp: Field_run_validation_def validate_empty_values_None convert_and_validate_def self_clean_def
        split: prod.splits sum.splits kind.splits)
  have B: "BaseFormSerializer_run_validation (to_internal_value getattr root_partial f) root_partial f PNone w =
     (if \<not> allow_null f then (Inl (fail f ''null'' []), w)
      else if source f = ''*'' then convert_and_validate getattr root_partial f PNone w
      else (Inr PNone, w))"
    by (auto simp: BaseFormSerializer_run_validation_def validate_empty_values_None convert_and_validate_def
        split: prod.splits sum.splits)
  show ?thesis
    by (cases "kind f")
      (simp_all add: run_validation.simps resolve_run_validation_def CharField_run_validation_def strip_None F B)
qed

text \<open>The theorem at a nullable integer field, at a required one and at the method field:
  the counting validator of the first two is not called.\<close>

theorem run_validation_None_witness:
  "run_validation int_attributes False nullable_int_field PNone 0 = (Inr PNone, 0) \<and>
   run_validation int_attributes False required_int_field PNone 0 =
     (Inl (ValidationError (Message ''This field may not be null.'')), 0) \<and>
   run_validation int_attributes False method_field PNone 0 = convert_and_validate int_attributes False method_field PNone 0"
  using run_validation_None[of int_attributes False nullable_int_field 0]
    run_validation_None[of int_attributes False required_int_field 0]
    run_validation_None[of int_attributes False method_field 0]
  by (simp add: nullable_int_field_def required_int_field_def method_field_def IntegerField_init_def
      fail_def error_messages_def Field_messages_def)

text \<open>The claim as it was stated lets a nullable field with the wildcard source return
  \<^verbatim>\<open>None\<close> untouched.  The method field is such a field: on \<^verbatim>\<open>None\<close> its method is called (the
  result is the method's, not \<^verbatim>\<open>None\<close>) and then its validator (two calls are counted).\<close>

theorem run_validation_None_counterexample:
  "allow_null method_field \<and> source method_field = ''*'' \<and>
   run_validation int_attributes False method_field PNone 0 = (Inr (PStr ''computed''), 2)"
  by (simp add: method_field_def run_validation.simps resolve_run_validation_def Field_run_validation_def
      validate_empty_values_def to_internal_value.simps counting_method_def run_validators_def
      counting_validator_def)

section \<open>Blank strings\<close>

text \<open>
  Claim C10.  For a \<^verbatim>\<open>CharField\<close>, an input that is the empty string, or (when
  \<^verbatim>\<open>trim_whitespace\<close> is on) whose \<^verbatim>\<open>str()\<close> strips to the empty string, is answered by
  \<^verbatim>\<open>run_validation\<close> itself: with \<^verbatim>\<open>allow_blank=True\<close> it returns \<^verbatim>\<open>''\<close>, with
  \<^verbatim>\<open>allow_blank=False\<close> it fails with what \<^verbatim>\<open>self.fail('blank')\<close> raises.  Neither
  \<^verbatim>\<open>to_internal_value\<close> nor a validator is called: the result does not depend on the
  validators of the field (those of \<^verbatim>\<open>min_length\<close> and \<^verbatim>\<open>max_length\<close> among them) and the state
  is the one the call started in.
\<close>

theorem CharField_blank:
  assumes "kind f = CharField ab tw" and "data = PStr [] \<or> (tw \<and> strip (str data) = [])"
  shows "run_validation getattr root_partial f data w =
           (if ab then (Inr (PStr []), w) else (Inl (fail f ''blank'' []), w))"
  using assms by (auto simp: run_validation.simps resolve_run_validation_def CharField_run_validation_def)

lemma strip_spaces: "strip (str (PStr ''  '')) = []"
  by (simp add: str_def strip_def lstrip_def rstrip_def is_space_def)

text \<open>The theorem at two fields with \<^verbatim>\<open>min_length=5\<close> and the counting validator, on two
  blanks and on the empty string.\<close>

theorem CharField_blank_witness:
  "run_validation int_attributes False blank_ok_field (PStr ''  '') 0 = (Inr (PStr []), 0) \<and>
   run_validation int_attributes False blank_ok_field (PStr []) 0 = (Inr (PStr []), 0) \<and>
   run_validation int_attributes False no_blank_field (PStr ''  '') 0 =
     (Inl (ValidationError (Message ''This field may not be blank.'')), 0) \<and>
   validators blank_ok_field = [counting_validator, MinLengthValidator 5]"
  using CharField_blank[of blank_ok_field True True "PStr ''  ''" int_attributes False 0]
    CharField_blank[of blank_ok_field True True "PStr []" int_attributes False 0]
    CharField_blank[of no_blank_field False True "PStr ''  ''" int_attributes False 0] strip_spaces
  by (simp add: blank_ok_field_def no_blank_field_def CharField_init_def fail_def error_messages_def
      Field_messages_def)

section \<open>The validator pipeline\<close>

lemma run_validators_loop_collects:
  "list_all passed_or_failed (validator_results vs v w) \<Longrightarrow>
   run_validators_loop vs v errors w =
     (Inr (errors @ failure_messages (validator_results vs v w)), validators_state vs v w)"
proof (induction vs arbitrary: errors w)
  case Nil
  show ?case by simp
next
  case (Cons validator vs)
  obtain r w' where r: "validator v w = (r, w')" by (cases "validator v w")
  have rest: "list_all passed_or_failed (validator_results vs v w')" and ok: "passed_or_failed r"
    using Cons.prems r by auto
  show ?case
  proof (cases r)
    case (Inr u)
    then show ?thesis using r Cons.IH[OF rest] by simp
  next
    case (Inl e)
    then obtain d where "e = ValidationError d" using ok by (cases e) auto
    then show ?thesis using r Inl Cons.IH[OF rest] by simp
  qed
qed

text \<open>
  \<^verbatim>\<open>Field.run_validators\<close> calls every validator of the field on the converted value, in
  declaration order, and does not stop at a validator that raises a \<^verbatim>\<open>ValidationError\<close>: when
  each validator returns or raises a \<^verbatim>\<open>ValidationError\<close>, the state after the call is the one
  the last validator leaves, the call raises one \<^verbatim>\<open>ValidationError\<close> that lists the messages
  of all the failing validators, in order, if there is at least one, and returns
  otherwise.
\<close>

lemma run_validators_collects:
  assumes "list_all passed_or_failed (validator_results (validators f) v w)"
  shows "run_validators f v w =
           (if failure_messages (validator_results (validators f) v w) = [] then Inr ()
            else Inl (ValidationError (JsonList (failure_messages (validator_results (validators f) v w)))),
            validators_state (validators f) v w)"
  using run_validators_loop_collects[OF assms, of "[]"] by (simp add: run_validators_def)

lemma three_validators_collected:
  "run_validators three_validators (PStr ''a1'') 0 =
     (Inl (ValidationError (JsonList [Message ''too short'', Message ''not a word''])), 3)"
  using run_validators_collects[of three_validators "PStr ''a1''" 0]
  by (simp add: three_validators_def failing_validator_def counting_validator_def)

text \<open>
  Claim C7 at the validators that the fields attach themselves.  The field
  \<^verbatim>\<open>CharField(min_length=5, validators=[v])\<close> has the validators \<^verbatim>\<open>v\<close> and
  \<^verbatim>\<open>MinLengthValidator(5)\<close>, in this order.  On the converted value \<^verbatim>\<open>"abc"\<close> both fail: \<^verbatim>\<open>v\<close>
  raises its \<^verbatim>\<open>ValidationError\<close>, which the loop collects, and the violated limit makes
  \<^verbatim>\<open>BaseValidator.__call__\<close> raise a \<^verbatim>\<open>TypeError\<close>, which the loop does not catch: the call
  raises the \<^verbatim>\<open>TypeError\<close> and the message collected before it is lost, where the claim asks
  for one validation failure that lists both.  With the limit validator first, the
  validator after it is not called on \<^verbatim>\<open>"abc"\<close> (no call is counted); it is on \<^verbatim>\<open>"abcde"\<close>,
  which meets the limit.
\<close>

theorem limit_validator_stops_pipeline:
  "validators short_name_field = [failing_validator ''not a word'', MinLengthValidator 5] \<and>
   run_validators short_name_field (PStr ''abc'') 0 = (Inl TypeError, 1) \<and>
   run_validation getattr False short_name_field (PStr ''abc'') 0 = (Inl TypeError, 1) \<and>
   run_validators limit_first_field (PStr ''abc'') 0 = (Inl TypeError, 0) \<and>
   run_validators limit_first_field (PStr ''abcde'') 0 = (Inr (), 1)"
  by (simp add: short_name_field_def limit_first_field_def failing_validator_def counting_validator_def
      MinLengthValidator_def BaseValidator_raise_def eval_defs)

section \<open>The fields of a serializer\<close>

lemma fields_loop_collects:
  assumes "distinct (map fst fs)"
    and "\<forall>n\<in>fst ` set fs. Name n \<notin> fst ` set errors"
    and "list_all value_failure_or_skip (field_results getattr rp cf fs data w)"
    and "assemble ret (written_values fs (field_results getattr rp cf fs data w)) = Inr tree"
  shows "fields_loop getattr (run_validation getattr rp) cf fs data ret errors w =
           (if errors @ recorded_errors fs (field_results getattr rp cf fs data w) = [] then Inr (PDict tree)
            else Inl (ValidationError (JsonDict (errors @ recorded_errors fs (field_results getattr rp cf fs data w)))),
            fields_state getattr rp cf fs data w)"
  using assms
proof (induction fs arbitrary: ret errors w)
  case Nil
  then show ?case by simp
next
  case (Cons a fs)
  obtain n fld where a: "a = (n, fld)" by (cases a)
  obtain r w' where r: "validate_method (cf n) (run_validation getattr rp fld (get_value getattr n data) w) = (r, w')"
    by (cases "validate_method (cf n) (run_validation getattr rp fld (get_value getattr n data) w)")
  have dist: "distinct (map fst fs)" and nfs: "n \<notin> fst ` set fs" using Cons.prems(1) a by auto
  have fresh: "Name n \<notin> fst ` set errors" using Cons.prems(2) a by auto
  have freshs: "\<forall>m\<in>fst ` set fs. Name m \<notin> fst ` set errors" using Cons.prems(2) by auto
  have ok: "value_failure_or_skip r" and oks: "list_all value_failure_or_skip (field_results getattr rp cf fs data w')"
    using Cons.prems(3) a r by auto
  show ?case
  proof (cases r)
    case (Inr v)
    obtain ret' where s: "set_value ret (source_attrs fld) v = Inr ret'"
      and as: "assemble ret' (written_values fs (field_results getattr rp cf fs data w')) = Inr tree"
      using Cons.prems(4) a r Inr by (auto split: sum.splits)
    show ?thesis using Cons.IH[OF dist freshs oks as] a r Inr s by simp
  next
    case (Inl e)
    show ?thesis
    proof (cases e)
      case (ValidationError d)
      have as: "assemble ret (written_values fs (field_results getattr rp cf fs data w')) = Inr tree"
        using Cons.prems(4) a r Inl ValidationError by simp
      have fr: "\<forall>m\<in>fst ` set fs. Name m \<notin> fst ` set (errors @ [(Name n, d)])"
        using freshs nfs by auto
      show ?thesis
        using Cons.IH[OF dist fr oks as] a r Inl ValidationError odict_set_new[OF fresh, of d] by simp
    next
      case SkipFieldException
      have as: "assemble ret (written_values fs (field_results getattr rp cf fs data w')) = Inr tree"
        using Cons.prems(4) a r Inl SkipFieldException by simp
      show ?thesis using Cons.IH[OF dist freshs oks as] a r Inl SkipFieldException by simp
    qed (use ok Inl in auto)
  qed
qed

text \<open>
  Claim C3 at the serializer with the fields \<^verbatim>\<open>name\<close> (a required string of at least five
  characters) and \<^verbatim>\<open>age\<close> (a required integer).  On \<^verbatim>\<open>{"name": "abc", "age": "x"}\<close> both fields
  fail, and the claim asks for an error tree with both names.  The code stops at \<^verbatim>\<open>name\<close>:
  the violated \<^verbatim>\<open>min_length\<close> makes \<^verbatim>\<open>BaseValidator.__call__\<close> raise a \<^verbatim>\<open>TypeError\<close>, which the loop
  of \<^verbatim>\<open>to_internal_value\<close> does not catch, so no error tree is raised and \<^verbatim>\<open>age\<close> is not
  processed (with a valid \<^verbatim>\<open>age\<close>, its validator is not called: no call is counted).  When
  \<^verbatim>\<open>name\<close> is long enough the failure of \<^verbatim>\<open>age\<close> is recorded under its name, as the claim
  says.

  The last part is the serializer of five fields on \<^verbatim>\<open>{"a": "1", "b": "x"}\<close>: the optional
  fields \<^verbatim>\<open>c\<close>, \<^verbatim>\<open>d\<close> and \<^verbatim>\<open>e\<close> are absent.  \<^verbatim>\<open>self.fields\<close> holds copies of the declared fields,
  the \<^verbatim>\<open>default\<close> of a copy is a copy of the sentinel, and \<^verbatim>\<open>get_default\<close>, which looks for the
  sentinel itself, returns it as the default of the field: the three fields are not
  skipped, and the value tree holds the copy under each of their names.
\<close>

theorem to_internal_value_stops_at_limit_validator:
  "to_internal_value getattr False signup_schema
       (PDict [(PStr ''name'', PStr ''abc''), (PStr ''age'', PStr ''x'')]) 0 = (Inl TypeError, 0) \<and>
   to_internal_value getattr False signup_schema
       (PDict [(PStr ''name'', PStr ''abc''), (PStr ''age'', PInt 7)]) 0 = (Inl TypeError, 0) \<and>
   to_internal_value getattr False signup_schema
       (PDict [(PStr ''name'', PStr ''abcdef''), (PStr ''age'', PStr ''x'')]) 0 =
     (Inl (ValidationError (JsonDict [(Name ''age'', Message ''A valid integer is required.'')])), 0) \<and>
   to_internal_value getattr False signup_schema
       (PDict [(PStr ''name'', PStr ''abcdef''), (PStr ''age'', PInt 7)]) 0 =
     (Inr (PDict [(PStr ''name'', PStr ''abcdef''), (PStr ''age'', PInt 7)]), 1) \<and>
   to_internal_value getattr False five_schema good_input 0 =
     (Inr (PDict [(PStr ''a'', PInt 1), (PStr ''b'', PStr ''x''), (PStr ''c'', sentinel_copy),
                  (PStr ''d'', sentinel_copy), (PStr ''e'', sentinel_copy)]), 2)"
  by (simp add: signup_schema_def signup_fields_def five_schema_def five_fields_def good_input_def
      no_hooks_def inherited_clean_def counting_validator_def MinLengthValidator_def BaseValidator_raise_def
      eval_defs)

section \<open>Partial mode\<close>

lemma strip_Empty: "strip (str Empty) \<noteq> []"
  by (simp add: str_def strip_def lstrip_def rstrip_def is_space_def)

text \<open>Under a root in partial mode a value that is absent is skipped, whatever the field:
  no default is computed, no failure is raised and nothing is called.\<close>

lemma absent_is_skipped: "run_validation getattr True f Empty w = (Inl SkipFieldException, w)"
proof -
  have v: "validate_empty_values True f Empty w = (Inl SkipFieldException, w)"
    by (simp add: validate_empty_values_def)
  show ?thesis
    by (cases "kind f")
      (simp_all add: run_validation.simps resolve_run_validation_def CharField_run_validation_def
        Field_run_validation_def BaseFormSerializer_run_validation_def v strip_Empty)
qed

lemma absent_field_contributes_nothing:
  assumes "map_of kvs (PStr n) = None"
  shows "fields_loop getattr (run_validation getattr True) cf ((n, fld) # fs) (PDict kvs) ret errors w =
         fields_loop getattr (run_validation getattr True) cf fs (PDict kvs) ret errors w"
  using assms by (simp add: get_value_def absent_is_skipped validate_method_def)

text \<open>
  Claim C6.  The serializer with the fields \<^verbatim>\<open>name\<close> (a required string) and \<^verbatim>\<open>age\<close> (a
  required integer), in partial mode, is valid on the input \<^verbatim>\<open>{"name": "a"}\<close>: \<^verbatim>\<open>is_valid\<close>
  returns \<^verbatim>\<open>True\<close>, the validated data are exactly \<^verbatim>\<open>{"name": "a"}\<close> and there are no
  errors.  In general, under a root in partial mode the validation of any field on an
  absent value gives the skip signal, and a field whose name is not a key of the input
  mapping leaves the loop of \<^verbatim>\<open>to_internal_value\<close> as it found it: nothing is written for it
  and no error is recorded.
\<close>

theorem partial_mode_skips_absent_fields:
  "is_valid getattr partial_schema (PDict [(PStr ''name'', PStr ''a'')]) None raise_exc () =
     ((Inr True, Some (PDict [(PStr ''name'', PStr ''a'')], None)), ()) \<and>
   run_validation getattr True f Empty w = (Inl SkipFieldException, w) \<and>
   (map_of kvs (PStr n) = None \<longrightarrow>
      fields_loop getattr (run_validation getattr True) cf ((n, f) # fs) (PDict kvs) ret errors w =
      fields_loop getattr (run_validation getattr True) cf fs (PDict kvs) ret errors w)"
proof -
  have "is_valid getattr partial_schema (PDict [(PStr ''name'', PStr ''a'')]) None raise_exc () =
     ((Inr True, Some (PDict [(PStr ''name'', PStr ''a'')], None)), ())"
    by (simp add: is_valid_def validate_once_def partial_schema_def name_age_fields_def age_field_def
        errors_truthy_def no_hooks_def inherited_clean_def eval_defs)
  then show ?thesis
    using absent_is_skipped[of getattr f w]
      absent_field_contributes_nothing[of kvs n getattr cf f fs ret errors w]
    by (simp del: fields_loop.simps)
qed

text \<open>The theorem at the field \<^verbatim>\<open>age\<close> and the input \<^verbatim>\<open>{"name": "a"}\<close>, after \<^verbatim>\<open>name\<close> has been
  written.\<close>

theorem partial_mode_skips_absent_fields_witness:
  "map_of [(PStr ''name'', PStr ''a'')] (PStr ''age'') = None \<and>
   fields_loop int_attributes (run_validation int_attributes True) no_hooks [(''age'', age_field)]
       (PDict [(PStr ''name'', PStr ''a'')]) [(PStr ''name'', PStr ''a'')] [] () =
     (Inr (PDict [(PStr ''name'', PStr ''a'')]), ())"
  using partial_mode_skips_absent_fields[of int_attributes False age_field "()" "[(PStr ''name'', PStr ''a'')]"
      "''age''" no_hooks "[]" "[(PStr ''name'', PStr ''a'')]" "[]"]
  by simp

section \<open>Lists\<close>

lemma run_child_validation_collects:
  assumes "list_all passed_or_failed (item_results run items w)"
    and "\<forall>(k, d)\<in>set errors. \<exists>j. k = Index j \<and> j < idx"
  shows "run_child_validation run items idx result errors w =
           (if errors @ indexed_failures idx (item_results run items w) = []
            then Inr (PList (result @ values_of (item_results run items w)))
            else Inl (ValidationError (JsonDict (errors @ indexed_failures idx (item_results run items w)))),
            items_state run items w)"
  using assms
proof (induction items arbitrary: idx result errors w)
  case Nil
  then show ?case by simp
next
  case (Cons item items)
  obtain r w' where r: "run item w = (r, w')" by (cases "run item w")
  have ok: "passed_or_failed r" and oks: "list_all passed_or_failed (item_results run items w')"
    using Cons.prems(1) r by auto
  have below: "\<forall>(k, d)\<in>set errors. \<exists>j. k = Index j \<and> j < Suc idx"
    using Cons.prems(2) by (auto intro: less_SucI)
  show ?case
  proof (cases r)
    case (Inr v)
    then show ?thesis using r Cons.IH[OF oks below] by simp
  next
    case (Inl e)
    then obtain d where e: "e = ValidationError d" using ok by (cases e) auto
    have fresh: "Index idx \<notin> fst ` set errors" using Cons.prems(2) by fastforce
    have below': "\<forall>(k, d)\<in>set (errors @ [(Index idx, d)]). \<exists>j. k = Index j \<and> j < Suc idx"
      using below by auto
    show ?thesis using r Inl e Cons.IH[OF oks below'] odict_set_new[OF fresh, of d] by simp
  qed
qed

text \<open>\<^verbatim>\<open>ListField\<close> validates every item and keys each failure by the position of its
  item.\<close>

lemma ListField_errors_keyed_by_position:
  assumes "kind f = ListField ch ae" and "ae \<or> items \<noteq> []"
    and "list_all passed_or_failed (item_results (run_validation getattr rp ch) items w)"
  shows "to_internal_value getattr rp f (PList items) w =
           (if indexed_failures 0 (item_results (run_validation getattr rp ch) items w) = []
            then Inr (PList (values_of (item_results (run_validation getattr rp ch) items w)))
            else Inl (ValidationError (JsonDict (indexed_failures 0 (item_results (run_validation getattr rp ch) items w)))),
            items_state (run_validation getattr rp ch) items w)"
  using run_child_validation_collects[OF assms(3), of "[]" 0 "[]"] assms(1,2)
  by (auto simp: to_internal_value.simps ListField_to_internal_value_def)

lemma ListSerializer_loop_collects:
  assumes "list_all passed_or_failed (item_results run items w)"
  shows "ListSerializer_loop run items ret errors w =
           (if list_ex truthy_details (errors @ failure_messages (item_results run items w))
            then Inl (ValidationError (JsonList (errors @ failure_messages (item_results run items w))))
            else Inr (PList (ret @ values_of (item_results run items w))),
            items_state run items w)"
  using assms
proof (induction items arbitrary: ret errors w)
  case Nil
  then show ?case by simp
next
  case (Cons item items)
  obtain r w' where r: "run item w = (r, w')" by (cases "run item w")
  have ok: "passed_or_failed r" and oks: "list_all passed_or_failed (item_results run items w')"
    using Cons.prems(1) r by auto
  show ?case
  proof (cases r)
    case (Inr v)
    then show ?thesis using r Cons.IH[OF oks] by simp
  next
    case (Inl e)
    then obtain d where e: "e = ValidationError d" using ok by (cases e) auto
    show ?thesis using r Inl e Cons.IH[OF oks] by simp
  qed
qed

text \<open>\<^verbatim>\<open>ListSerializer\<close> validates every item too, but what it raises is the list of the
  failures alone: the position of a failure in that list is its rank among the failures,
  not the position of its item.\<close>

lemma ListSerializer_errors_lose_positions:
  assumes "kind f = ListSerializer ch ae hp p" and "ae \<or> items \<noteq> []"
    and "list_all passed_or_failed (item_results (run_validation getattr rp ch) items w)"
  shows "to_internal_value getattr rp f (PList items) w =
           (if list_ex truthy_details (failure_messages (item_results (run_validation getattr rp ch) items w))
            then Inl (ValidationError (JsonList (failure_messages (item_results (run_validation getattr rp ch) items w))))
            else Inr (PList (values_of (item_results (run_validation getattr rp ch) items w))),
            items_state (run_validation getattr rp ch) items w)"
  using ListSerializer_loop_collects[OF assms(3), of "[]" "[]"] assms(1,2)
  by (auto simp: to_internal_value.simps ListSerializer_to_internal_value_def)

text \<open>
  Claim C4 on lists of three items whose first and last items are invalid.  The
  \<^verbatim>\<open>ListField\<close> of integers raises the error tree \<^verbatim>\<open>{0: ..., 2: ...}\<close>, as the claim says.  The
  \<^verbatim>\<open>ListSerializer\<close> validates all three items as well (the validator of the second has
  run), and raises the list of the two failures: the failure of the item at position 2 is
  at position 1, and no entry is keyed by 2.
\<close>

theorem list_errors_positions:
  "to_internal_value getattr False int_list_field (PList [PStr ''x'', PInt 1, PNone]) 0 =
     (Inl (ValidationError (JsonDict [(Index 0, Message ''A valid integer is required.''),
                                      (Index 2, Message ''This field may not be null.'')])), 1) \<and>
   to_internal_value getattr False item_list_serializer
       (PList [PDict [(PStr ''n'', PStr ''x'')], PDict [(PStr ''n'', PInt 1)], PDict []]) 0 =
     (Inl (ValidationError (JsonList [JsonDict [(Name ''n'', Message ''A valid integer is required.'')],
                                      JsonDict [(Name ''n'', Message ''This field is required.'')]])), 1)"
  by (simp add: int_list_field_def item_list_serializer_def item_schema_def no_hooks_def inherited_clean_def
      counting_validator_def eval_defs)

section \<open>\<^verbatim>\<open>is_valid\<close> of a list serializer\<close>

lemma validate_once_not_ValidationError:
  "validate_once getattr no_data s data attrs w \<noteq> (Inl (ValidationError d), w')"
  by (auto simp: validate_once_def split: option.splits prod.splits sum.splits exn.splits)

text \<open>
  Claim C5.  For a \<^verbatim>\<open>ListSerializer\<close> object that has not been validated yet: when the
  validation of the request data raises a \<^verbatim>\<open>ValidationError\<close> whose details are not empty,
  \<^verbatim>\<open>is_valid\<close> stores them and raises \<^verbatim>\<open>NameError\<close> for the name \<^verbatim>\<open>raise_exc\<close>; when the
  validation returns, \<^verbatim>\<open>is_valid\<close> returns \<^verbatim>\<open>True\<close>.  For every object, validated before or
  not: the outcome does not depend on the argument \<^verbatim>\<open>raise_exception\<close>; \<^verbatim>\<open>is_valid\<close> never
  returns \<^verbatim>\<open>False\<close> and never raises a \<^verbatim>\<open>ValidationError\<close>; and when it returns \<^verbatim>\<open>True\<close> the errors
  it has stored are \<^verbatim>\<open>None\<close> or empty.
\<close>

theorem ListSerializer_is_valid_NameError:
  "(run_validation getattr (partial (kind s)) s data w = (Inl (ValidationError d), w') \<and> truthy_details d \<longrightarrow>
      ListSerializer_is_valid getattr s data None raise_exception w =
        ((Inl (NameError ''raise_exc''), Some (PList [], Some d)), w')) \<and>
   (run_validation getattr (partial (kind s)) s data w = (Inr v, w') \<longrightarrow>
      ListSerializer_is_valid getattr s data None raise_exception w = ((Inr True, Some (v, None)), w')) \<and>
   ListSerializer_is_valid getattr s data attrs True w = ListSerializer_is_valid getattr s data attrs False w \<and>
   fst (fst (ListSerializer_is_valid getattr s data attrs raise_exception w)) \<noteq> Inr False \<and>
   fst (fst (ListSerializer_is_valid getattr s data attrs raise_exception w)) \<noteq> Inl (ValidationError d) \<and>
   (fst (fst (ListSerializer_is_valid getattr s data attrs raise_exception w)) = Inr True \<longrightarrow>
      (\<exists>validated_data errs.
         snd (fst (ListSerializer_is_valid getattr s data attrs raise_exception w)) = Some (validated_data, errs)
         \<and> \<not> errors_truthy errs))"
proof (intro conjI impI)
  assume "run_validation getattr (partial (kind s)) s data w = (Inl (ValidationError d), w') \<and> truthy_details d"
  then show "ListSerializer_is_valid getattr s data None raise_exception w =
        ((Inl (NameError ''raise_exc''), Some (PList [], Some d)), w')"
    by (simp add: ListSerializer_is_valid_def validate_once_def errors_truthy_def)
next
  assume "run_validation getattr (partial (kind s)) s data w = (Inr v, w')"
  then show "ListSerializer_is_valid getattr s data None raise_exception w = ((Inr True, Some (v, None)), w')"
    by (simp add: ListSerializer_is_valid_def validate_once_def errors_truthy_def)
next
  show "ListSerializer_is_valid getattr s data attrs True w = ListSerializer_is_valid getattr s data attrs False w"
    by (simp add: ListSerializer_is_valid_def)
next
  show "fst (fst (ListSerializer_is_valid getattr s data attrs raise_exception w)) \<noteq> Inr False"
    by (auto simp: ListSerializer_is_valid_def split: prod.splits sum.splits)
next
  show "fst (fst (ListSerializer_is_valid getattr s data attrs raise_exception w)) \<noteq> Inl (ValidationError d)"
    using validate_once_not_ValidationError[of getattr "PList []" s data attrs w d]
    by (auto simp: ListSerializer_is_valid_def split: prod.splits sum.splits)
next
  assume "fst (fst (ListSerializer_is_valid getattr s data attrs raise_exception w)) = Inr True"
  then show "\<exists>validated_data errs.
         snd (fst (ListSerializer_is_valid getattr s data attrs raise_exception w)) = Some (validated_data, errs)
         \<and> \<not> errors_truthy errs"
    by (auto simp: ListSerializer_is_valid_def split: prod.splits sum.splits if_splits)
qed

lemma item_list_invalid:
  "run_validation getattr (partial (kind item_list_serializer)) item_list_serializer
       (PList [PDict [(PStr ''n'', PStr ''x'')], PDict [(PStr ''n'', PInt 1)]]) 0 =
     (Inl (ValidationError (JsonList [JsonDict [(Name ''n'', Message ''A valid integer is required.'')]])), 1)"
  by (simp add: item_list_serializer_def item_schema_def no_hooks_def inherited_clean_def
      counting_validator_def eval_defs)

lemma item_list_valid:
  "run_validation getattr (partial (kind item_list_serializer)) item_list_serializer
       (PList [PDict [(PStr ''n'', PInt 1)]]) 0 = (Inr (PList [PDict [(PStr ''n'', PInt 1)]]), 1)"
  by (simp add: item_list_serializer_def item_schema_def no_hooks_def inherited_clean_def
      counting_validator_def eval_defs)

text \<open>The theorem at the list serializer of the schema with the one required integer
  field: on a list with an invalid item \<^verbatim>\<open>is_valid(raise_exception=False)\<close> raises the
  \<^verbatim>\<open>NameError\<close>; on a valid list \<^verbatim>\<open>is_valid(raise_exception=True)\<close> returns \<^verbatim>\<open>True\<close>.\<close>

theorem ListSerializer_is_valid_NameError_witness:
  "ListSerializer_is_valid int_attributes item_list_serializer (PList [PDict [(PStr ''n'', PStr ''x'')], PDict [(PStr ''n'', PInt 1)]]) None False 0 =
     ((Inl (NameError ''raise_exc''),
       Some (PList [], Some (JsonList [JsonDict [(Name ''n'', Message ''A valid integer is required.'')]]))), 1) \<and>
   ListSerializer_is_valid int_attributes item_list_serializer (PList [PDict [(PStr ''n'', PInt 1)]]) None True 0 =
     ((Inr True, Some (PList [PDict [(PStr ''n'', PInt 1)]], None)), 1)"
  using ListSerializer_is_valid_NameError[of int_attributes item_list_serializer
      "PList [PDict [(PStr ''n'', PStr ''x'')], PDict [(PStr ''n'', PInt 1)]]" 0
      "JsonList [JsonDict [(Name ''n'', Message ''A valid integer is required.'')]]" 1 False PNone None]
    ListSerializer_is_valid_NameError[of int_attributes item_list_serializer "PList [PDict [(PStr ''n'', PInt 1)]]" 0
      "Message []" 1 True "PList [PDict [(PStr ''n'', PInt 1)]]" None]
    item_list_invalid[of int_attributes] item_list_valid[of int_attributes]
  by simp

text \<open>\<^verbatim>\<open>BaseFormSerializer.is_valid\<close>, whose parameter is named \<^verbatim>\<open>raise_exc\<close>, on the schema of
  five fields and its invalid input: it returns \<^verbatim>\<open>False\<close>, or raises the stored errors when
  asked to.\<close>

lemma Serializer_is_valid_invalid_input:
  "fst (fst (is_valid getattr five_schema five_input None False 0)) = Inr False \<and>
   fst (fst (is_valid getattr five_schema five_input None True 0)) =
     Inl (ValidationError (JsonDict [(Name ''b'', Message ''This field is required.''),
                                     (Name ''d'', Message ''A valid integer is required.'')]))"
  by (simp add: is_valid_def validate_once_def errors_truthy_def five_schema_def five_fields_def
      five_input_def no_hooks_def inherited_clean_def counting_validator_def eval_defs)

end
